theory Spec2Isabelle
  imports Main "HOL-Library.Word"
begin

section \<open>Data model of libavformat/tcp.c\<close>

text \<open>
  The C integers that carry times (\<open>int64_t\<close>, microseconds from \<open>av_gettime\<close>) are
  64-bit words: \<open>+\<close> and \<open>*\<close> wrap, comparisons are the signed ones (\<open><s\<close>, \<open>\<le>s\<close>).
  Return codes, flags, descriptors and the \<open>int\<close> options are \<open>int\<close>: the code compares
  them, and divides \<open>open_timeout\<close> by 1000.
  A C string is a \<open>string\<close> (the bytes before the terminator), so \<open>hostname[0] == 0\<close>
  is \<open>hostname = []\<close>; a nullable \<open>char *\<close> is a \<open>string option\<close>.
\<close>

type_synonym int64 = "64 word"
type_synonym byte = "8 word"

text \<open>
  \<open>struct addrinfo\<close>: one node. The \<open>ai_next\<close> link is the tail of a HOL list, so a
  pointer to a (possibly null) chain of nodes is an \<open>addrinfo list\<close> and \<open>NULL\<close> is
  \<open>[]\<close>. \<open>ai_addr\<close> points to the bytes of the socket address and may be null.
\<close>

record addrinfo =
  ai_flags :: int
  ai_family :: int
  ai_socktype :: int
  ai_protocol :: int
  ai_addrlen :: nat
  ai_canonname :: "string option"
  ai_addr :: "byte list option"

text \<open>
  \<open>TCPContext\<close> without \<open>class\<close>, \<open>app_ctx_intptr\<close> and \<open>app_ctx\<close>: the application context
  is used for the observer's hooks only, and what the hooks answer is an input of the
  model. In \<open>DnsCacheInfo\<close> the field \<open>res\<close> is named \<open>cache_res\<close>, since the request
  below has a field \<open>res\<close> too.
\<close>

record TCPContext =
  fd :: int
  listen :: int
  open_timeout :: int
  rw_timeout :: int
  listen_timeout :: int
  recv_buffer_size :: int
  send_buffer_size :: int
  addrinfo_one_by_one :: int
  addrinfo_timeout :: int
  dns_cache :: int
  dns_cache_timeout :: int64
  dns_cache_clear :: int

record DnsCacheInfo =
  dns_cache_time :: int64
  cache_res :: "addrinfo list"

subsection \<open>Constants of the platform and of libavutil\<close>

text \<open>
  The system headers and libavutil/error.h are not among the sources. The values are
  those of the iOS (Darwin) target of this repository and of FFmpeg's
  \<open>FFERRTAG('E','X','I','T')\<close>; \<open>AVERROR(e)\<close> is \<open>-e\<close>.
\<close>

definition AF_UNSPEC :: int where "AF_UNSPEC = 0"
definition AF_INET :: int where "AF_INET = 2"
definition AF_INET6 :: int where "AF_INET6 = 30"
definition SOCK_STREAM :: int where "SOCK_STREAM = 1"
definition AI_PASSIVE :: int where "AI_PASSIVE = 1"
definition ENOMEM :: int where "ENOMEM = 12"
definition EIO :: int where "EIO = 5"
definition EINVAL :: int where "EINVAL = 22"
definition ETIMEDOUT :: int where "ETIMEDOUT = 60"
definition AVERROR :: "int \<Rightarrow> int" where "AVERROR e = - e"
definition AVERROR_EXIT :: int where "AVERROR_EXIT = - 1414092869"

text \<open>\<open>sizeof(struct sockaddr)\<close>: 16 bytes.\<close>

definition sizeof_sockaddr :: nat where "sizeof_sockaddr = 16"

text \<open>
  \<open>memcpy(dst, src, n)\<close> into a fresh buffer of \<open>n\<close> bytes: the first \<open>n\<close> bytes of
  the source. Where the source object is shorter than \<open>n\<close> the C code reads past it
  (undefined); the model keeps the bytes that exist.
\<close>

definition memcpy :: "nat \<Rightarrow> byte list \<Rightarrow> byte list" where
  "memcpy n src = take n src"

subsection \<open>The process-wide DNS dictionary\<close>

text \<open>
  Modelled from the spec: \<open>AVDictionary\<close> with \<open>av_dict_get\<close> and \<open>av_dict_set_int\<close>
  (libavutil/dict.c) is not among the sources. The spec has the cache key matched as an
  exact, case-sensitive string with at most one entry per hostname, so the dictionary is
  a map from the hostname. The stored value is the decimal text of a pointer to a
  heap-allocated \<open>DnsCacheInfo\<close>; here it is the pointed-to value, and the text \<open>0\<close> (a
  null pointer, which is what \<open>av_dict_set_int(.., hostname, 0, 0)\<close> leaves under the key)
  is \<open>None\<close>. So \<open>d h = None\<close>: no key; \<open>d h = Some None\<close>: key with a null value;
  \<open>d h = Some (Some info)\<close>: a live cache entry. Freeing memory is not modelled.
\<close>

type_synonym AVDictionary = "string \<rightharpoonup> DnsCacheInfo option"

definition av_dict_get :: "AVDictionary \<Rightarrow> string \<Rightarrow> DnsCacheInfo option option" where
  "av_dict_get d key = d key"

definition av_dict_set_int :: "AVDictionary \<Rightarrow> string \<Rightarrow> DnsCacheInfo option \<Rightarrow> AVDictionary" where
  "av_dict_set_int d key v = d(key \<mapsto> v)"

subsection \<open>\<open>get_dns_cache\<close> and \<open>set_dns_cache\<close>\<close>

text \<open>
  The copy both functions make of a node: \<open>memcpy\<close> of the node (every field, so
  \<open>ai_addrlen\<close> too), a fresh \<open>ai_addr\<close> buffer of \<open>sizeof(struct sockaddr)\<close> bytes filled
  by \<open>memcpy\<close>, \<open>ai_canonname = NULL\<close>. \<open>ai_next = NULL\<close> makes the result a one-node list.
\<close>

definition private_copy :: "addrinfo \<Rightarrow> byte list \<Rightarrow> addrinfo" where
  "private_copy a bytes =
     a\<lparr>ai_addr := Some (memcpy sizeof_sockaddr bytes), ai_canonname := None\<rparr>"

text \<open>
  \<open>get_dns_cache s cur_time malloc_ok hostname d\<close>: \<open>cur_time\<close> is what \<open>av_gettime()\<close>
  returns, \<open>malloc_ok k\<close> says whether the \<open>k\<close>-th \<open>av_mallocz\<close> of the call succeeds.
  The result is the return value (1 on a hit), what is written to \<open>*p_ai\<close> (\<open>None\<close>: not
  written) and the dictionary afterwards.
\<close>

definition get_dns_cache ::
  "TCPContext \<Rightarrow> int64 \<Rightarrow> (nat \<Rightarrow> bool) \<Rightarrow> string \<Rightarrow> AVDictionary
     \<Rightarrow> int \<times> addrinfo list option \<times> AVDictionary" where
  "get_dns_cache s cur_time malloc_ok hostname d =
     (if cur_time <s 0 \<or> hostname = [] then (0, None, d)
      else case av_dict_get d hostname of
        None \<Rightarrow> (0, None, d)
      | Some None \<Rightarrow> (0, None, d)
      | Some (Some dns_cache_info) \<Rightarrow>
          if dns_cache_clear s \<noteq> 0 then (0, None, av_dict_set_int d hostname None)
          else if dns_cache_timeout s <s 0
                  \<or> cur_time <s dns_cache_time dns_cache_info + dns_cache_timeout s * 1000
          then (case cache_res dns_cache_info of
                  [] \<Rightarrow> (0, None, av_dict_set_int d hostname None)
                | a # _ \<Rightarrow>
                    (case ai_addr a of
                       None \<Rightarrow> (0, None, av_dict_set_int d hostname None)
                     | Some bytes \<Rightarrow>
                         if \<not> malloc_ok 0 then (0, None, d)
                         else if \<not> malloc_ok 1 then (0, None, d)
                         else (1, Some [private_copy a bytes], d)))
          else (0, None, av_dict_set_int d hostname None))"

text \<open>
  \<open>set_dns_cache cur_time malloc_ok hostname cur_ai d\<close>: \<open>cur_ai\<close> points into the
  candidate list (\<open>[]\<close> is \<open>NULL\<close>); the result is the dictionary afterwards.
\<close>

definition set_dns_cache ::
  "int64 \<Rightarrow> (nat \<Rightarrow> bool) \<Rightarrow> string \<Rightarrow> addrinfo list \<Rightarrow> AVDictionary \<Rightarrow> AVDictionary" where
  "set_dns_cache cur_time malloc_ok hostname cur_ai d =
     (if cur_time <s 0 \<or> hostname = [] then d
      else case cur_ai of
        [] \<Rightarrow> d
      | a # _ \<Rightarrow>
          (case ai_addr a of
             None \<Rightarrow> d
           | Some bytes \<Rightarrow>
               if \<not> malloc_ok 0 then d
               else if \<not> malloc_ok 1 then d
               else if \<not> malloc_ok 2 then d
               else av_dict_set_int d hostname
                      (Some \<lparr>dns_cache_time = cur_time, cache_res = [private_copy a bytes]\<rparr>)))"


section \<open>The resolver: \<open>ijk_tcp_getaddrinfo_nonblock\<close> and its workers\<close>

text \<open>
  What the code does to the outside world is recorded as a trace of events, in program
  order, so that a statement such as "no background task is created" is a statement about
  the trace.
\<close>

datatype event =
    Getaddrinfo "string option" "string option" "addrinfo option"
  | AppendRes "addrinfo list"
  | SetFinished
  | MutexLock
  | MutexUnlock
  | CondSignal
  | CondTimedwait int64
  | BufferUnref
  | PthreadCreate int
  | PthreadDetach
  | CheckInterrupt
  | Socket int int int
  | Setsockopt int string int
  | Listen int
  | ListenBind int
  | WillOpen
  | Connect int addrinfo int bool
  | DidOpen int int
  | Closesocket int

text \<open>
  The platform's \<open>getaddrinfo(hostname, servname, hints, &res)\<close>: the return code and the
  list it stores in \<open>res\<close> when the code is 0 (on an error \<open>res\<close> is left as it was).
\<close>

type_synonym getaddrinfo_fun =
  "string option \<Rightarrow> string option \<Rightarrow> addrinfo option \<Rightarrow> int \<times> addrinfo list"

text \<open>
  \<open>TCPAddrinfoRequest\<close>: the fields that the worker thread and the waiting thread share.
  The mutex, the condition variable and the reference-counted buffer are visible in the
  trace only.
\<close>

record TCPAddrinfoRequest =
  req_hostname :: "string option"
  req_servname :: "string option"
  req_hints :: addrinfo
  res :: "addrinfo list"
  finished :: int
  last_error :: int

definition zero_addrinfo :: addrinfo where
  "zero_addrinfo = \<lparr>ai_flags = 0, ai_family = 0, ai_socktype = 0, ai_protocol = 0,
                     ai_addrlen = 0, ai_canonname = None, ai_addr = None\<rparr>"

text \<open>
  \<open>tcp_getaddrinfo_request_create\<close>. \<open>alloc k\<close> says whether the \<open>k\<close>-th allocation of the
  call succeeds, in program order: \<open>av_mallocz\<close>, \<open>pthread_mutex_init\<close>,
  \<open>pthread_cond_init\<close>, \<open>av_strdup(hostname)\<close>, \<open>av_strdup(servname)\<close>, \<open>av_buffer_create\<close>.
  After duplicating \<open>servname\<close> the code tests \<open>req->hostname\<close>, and the model does the same.
\<close>

definition tcp_getaddrinfo_request_create ::
  "(nat \<Rightarrow> bool) \<Rightarrow> string option \<Rightarrow> string option \<Rightarrow> addrinfo option
     \<Rightarrow> int + TCPAddrinfoRequest" where
  "tcp_getaddrinfo_request_create alloc hostname servname hints_p =
     (if \<not> alloc 0 then Inl (AVERROR ENOMEM)
      else if \<not> alloc 1 then Inl (AVERROR ENOMEM)
      else if \<not> alloc 2 then Inl (AVERROR ENOMEM)
      else
        let h = (case hostname of None \<Rightarrow> None | Some x \<Rightarrow> if alloc 3 then Some x else None) in
        if hostname \<noteq> None \<and> h = None then Inl (AVERROR ENOMEM)
        else
          let sv = (case servname of None \<Rightarrow> None | Some x \<Rightarrow> if alloc 4 then Some x else None) in
          if servname \<noteq> None \<and> h = None then Inl (AVERROR ENOMEM)
          else
            let hi = (case hints_p of
                        None \<Rightarrow> zero_addrinfo
                      | Some x \<Rightarrow> zero_addrinfo\<lparr>ai_family := ai_family x,
                                     ai_socktype := ai_socktype x,
                                     ai_protocol := ai_protocol x,
                                     ai_flags := ai_flags x\<rparr>) in
            if \<not> alloc 5 then Inl (AVERROR ENOMEM)
            else Inr \<lparr>req_hostname = h, req_servname = sv, req_hints = hi,
                      res = [], finished = 0, last_error = 0\<rparr>)"

text \<open>The end of both workers: set \<open>finished\<close> under the mutex, signal, drop the reference.\<close>

definition worker_finish :: "event list" where
  "worker_finish = [MutexLock, SetFinished, CondSignal, MutexUnlock, BufferUnref]"

text \<open>\<open>tcp_getaddrinfo_worker\<close>: one call, its return code dropped.\<close>

definition tcp_getaddrinfo_worker ::
  "getaddrinfo_fun \<Rightarrow> TCPAddrinfoRequest \<Rightarrow> TCPAddrinfoRequest \<times> event list" where
  "tcp_getaddrinfo_worker gai req =
     (case gai (req_hostname req) (req_servname req) (Some (req_hints req)) of
        (r, l) \<Rightarrow>
          ((if r = 0 then req\<lparr>res := l\<rparr> else req)\<lparr>finished := 1\<rparr>,
           Getaddrinfo (req_hostname req) (req_servname req) (Some (req_hints req))
             # worker_finish))"

text \<open>
  The body of the \<open>for\<close> loop of \<open>tcp_getaddrinfo_one_by_one_worker\<close> for one entry of
  \<open>family_option\<close>. Appending to the end of the chain (\<open>while (cur->ai_next) ...\<close>) is \<open>@\<close>;
  \<open>req->res = temp_addrinfo\<close> on a null \<open>req->res\<close> is the same operation on \<open>[]\<close>.
\<close>

definition one_by_one_step ::
  "getaddrinfo_fun \<Rightarrow> int \<Rightarrow> TCPAddrinfoRequest \<Rightarrow> TCPAddrinfoRequest \<times> event list" where
  "one_by_one_step gai family req =
     (let req1 = req\<lparr>req_hints := (req_hints req)\<lparr>ai_family := family\<rparr>\<rparr>;
          call = Getaddrinfo (req_hostname req1) (req_servname req1) (Some (req_hints req1))
      in case gai (req_hostname req1) (req_servname req1) (Some (req_hints req1)) of
           (r, temp_addrinfo) \<Rightarrow>
             if r \<noteq> 0 then (req1\<lparr>last_error := r\<rparr>, [call])
             else (req1\<lparr>res := (if res req1 = [] then temp_addrinfo
                                  else res req1 @ temp_addrinfo)\<rparr>,
                   [call, MutexLock, AppendRes temp_addrinfo, MutexUnlock]))"

fun one_by_one_loop ::
  "getaddrinfo_fun \<Rightarrow> int list \<Rightarrow> TCPAddrinfoRequest \<Rightarrow> TCPAddrinfoRequest \<times> event list" where
  "one_by_one_loop gai [] req = (req, [])"
| "one_by_one_loop gai (family # families) req =
     (case one_by_one_step gai family req of
        (req1, evs1) \<Rightarrow>
          (case one_by_one_loop gai families req1 of
             (req2, evs2) \<Rightarrow> (req2, evs1 @ evs2)))"

definition family_option :: "int list" where
  "family_option = [AF_INET, AF_INET6]"

definition tcp_getaddrinfo_one_by_one_worker ::
  "getaddrinfo_fun \<Rightarrow> TCPAddrinfoRequest \<Rightarrow> TCPAddrinfoRequest \<times> event list" where
  "tcp_getaddrinfo_one_by_one_worker gai req =
     (case one_by_one_loop gai family_option req of
        (req1, evs) \<Rightarrow> (req1\<lparr>finished := 1\<rparr>, evs @ worker_finish))"

subsection \<open>The wait loop\<close>

text \<open>
  The worker runs concurrently, so what the waiting thread reads from the request is an
  input of the model: the request as the waiter sees it each time it holds the mutex.
  One \<open>wakeup\<close> is one pass through the rest of the loop body after the test at its top:
  the return code of \<open>pthread_cond_timedwait\<close>, the answer of \<open>ff_check_interrupt\<close>, the
  next \<open>av_gettime()\<close>, and the request as read by the next test at the top of the loop.
\<close>

record wakeup =
  cond_ret :: int
  interrupted :: bool
  time_after :: int64
  req_after :: TCPAddrinfoRequest

text \<open>
  The test at the top of the loop: \<open>Some\<close> of the return code and of what is stored in
  \<open>*res\<close> (\<open>None\<close>: nothing stored) when the loop is left there, \<open>None\<close> when it goes on.
\<close>

definition wait_check ::
  "int64 \<Rightarrow> int64 \<Rightarrow> int64 \<Rightarrow> TCPAddrinfoRequest \<Rightarrow> (int \<times> addrinfo list option) option" where
  "wait_check start timeout now req =
     (if finished req \<noteq> 0 \<or> start + timeout <s now then
        (if res req \<noteq> [] then Some (0, Some (res req))
         else Some (if last_error req \<noteq> 0 then last_error req else AVERROR_EXIT, None))
      else None)"

text \<open>
  The loop over the wakeups that the schedule supplies. \<open>None\<close>: the loop has not returned
  when the schedule ends (it is still waiting).
\<close>

fun wait_loop ::
  "int64 \<Rightarrow> int64 \<Rightarrow> int64 \<Rightarrow> TCPAddrinfoRequest \<Rightarrow> wakeup list
     \<Rightarrow> (int \<times> addrinfo list option \<times> event list) option" where
  "wait_loop start timeout now req [] =
     (case wait_check start timeout now req of
        Some (r, l) \<Rightarrow> Some (r, l, [])
      | None \<Rightarrow> None)"
| "wait_loop start timeout now req (w # ws) =
     (case wait_check start timeout now req of
        Some (r, l) \<Rightarrow> Some (r, l, [])
      | None \<Rightarrow>
          if cond_ret w \<noteq> 0 \<and> cond_ret w \<noteq> ETIMEDOUT
          then Some (AVERROR_EXIT, None, [CondTimedwait (now + 100000)])
          else if interrupted w
          then Some (AVERROR_EXIT, None, [CondTimedwait (now + 100000), CheckInterrupt])
          else (case wait_loop start timeout (time_after w) (req_after w) ws of
                  None \<Rightarrow> None
                | Some (r, l, evs) \<Rightarrow>
                    Some (r, l, CondTimedwait (now + 100000) # CheckInterrupt # evs)))"

text \<open>
  The environment of one call of the resolver: the platform's \<open>getaddrinfo\<close>, the
  allocations of the request, \<open>av_buffer_ref\<close>, the return code of \<open>pthread_create\<close>, the
  first \<open>av_gettime()\<close>, the request as first read under the mutex, and the wakeups.
\<close>

record resolver_env =
  getaddrinfo :: getaddrinfo_fun
  req_alloc :: "nat \<Rightarrow> bool"
  buffer_ref_ok :: bool
  pthread_create_ret :: int
  start_time :: int64
  first_view :: TCPAddrinfoRequest
  wakeups :: "wakeup list"

text \<open>
  \<open>ijk_tcp_getaddrinfo_nonblock\<close> (the \<open>HAVE_PTHREADS\<close> version). The result is the return
  code, what is stored in \<open>*res\<close> and the trace of the calling thread; \<open>None\<close> when the wait
  loop has not returned at the end of the schedule.
\<close>

definition ijk_tcp_getaddrinfo_nonblock ::
  "resolver_env \<Rightarrow> string option \<Rightarrow> string option \<Rightarrow> addrinfo option \<Rightarrow> int64 \<Rightarrow> int
     \<Rightarrow> (int \<times> addrinfo list option \<times> event list) option" where
  "ijk_tcp_getaddrinfo_nonblock env hostname0 servname hints_p timeout one_by_one =
     (let hostname = (if hostname0 = Some [] then None else hostname0) in
      if timeout \<le>s 0 then
        (case getaddrinfo env hostname servname hints_p of
           (r, l) \<Rightarrow>
             Some (r, if r = 0 then Some l else None, [Getaddrinfo hostname servname hints_p]))
      else
        (case tcp_getaddrinfo_request_create (req_alloc env) hostname servname hints_p of
           Inl e \<Rightarrow> Some (e, None, [BufferUnref])
         | Inr req \<Rightarrow>
             if \<not> buffer_ref_ok env then Some (AVERROR ENOMEM, None, [BufferUnref])
             else if pthread_create_ret env \<noteq> 0
             then Some (AVERROR (pthread_create_ret env), None,
                        [PthreadCreate one_by_one, BufferUnref])
             else
               (case wait_loop (start_time env) timeout (start_time env) (first_view env)
                       (wakeups env) of
                  None \<Rightarrow> None
                | Some (r, l, evs) \<Rightarrow>
                    Some (r, l, [PthreadCreate one_by_one, PthreadDetach, MutexLock] @ evs
                                  @ [MutexUnlock, BufferUnref]))))"


section \<open>\<open>tcp_open\<close>\<close>

text \<open>C's \<open>/\<close> on \<open>int\<close> truncates towards zero.\<close>

definition c_div :: "int \<Rightarrow> int \<Rightarrow> int" where
  "c_div a b = (if (a < 0) = (b < 0) then \<bar>a\<bar> div \<bar>b\<bar> else - (\<bar>a\<bar> div \<bar>b\<bar>))"

text \<open>
  The workaround at \<open>restart\<close> (\<open>HAVE_STRUCT_SOCKADDR_IN6\<close>): an \<open>AF_INET6\<close> candidate whose
  \<open>sin6_port\<close> (bytes 2 and 3 of the socket address, network byte order) is zero gets
  \<open>htons(port)\<close>. A candidate of that family with a null or shorter address is not a
  \<open>sockaddr_in6\<close>; the C code is undefined there and the model leaves the node as it is.
\<close>

definition fix_port :: "int \<Rightarrow> addrinfo \<Rightarrow> addrinfo" where
  "fix_port port a =
     (if ai_family a = AF_INET6 then
        (case ai_addr a of
           None \<Rightarrow> a
         | Some bytes \<Rightarrow>
             if 4 \<le> length bytes \<and> bytes ! 2 = 0 \<and> bytes ! 3 = 0
             then a\<lparr>ai_addr := Some (bytes[2 := word_of_int (port div 256),
                                            3 := word_of_int (port mod 256)])\<rparr>
             else a)
      else a)"

text \<open>
  What the outside world answers during one pass from \<open>restart\<close>: the results of
  \<open>ff_socket\<close>, \<open>ff_neterrno\<close>, \<open>ff_listen\<close>, \<open>ff_listen_bind\<close>,
  \<open>av_application_on_tcp_will_open\<close>, \<open>ff_listen_connect\<close> and
  \<open>av_application_on_tcp_did_open\<close>, and the \<open>control.ip\<close> that the last one fills in.
\<close>

record attempt_io =
  socket_ret :: int
  neterrno :: int
  listen_ret :: int
  listen_bind_ret :: int
  will_open_ret :: int
  connect_ret :: int
  did_open_ret :: int
  control_ip :: string

text \<open>
  The environment of one call of \<open>tcp_open\<close>: the result of \<open>pthread_mutex_init\<close> should
  \<open>pthread_once\<close> run it, the clock and the allocations of \<open>get_dns_cache\<close> and of
  \<open>set_dns_cache\<close>, the resolver's environment, and the answers for the \<open>k\<close>-th pass from
  \<open>restart\<close>.
\<close>

record open_env =
  mutex_init_ret :: int
  get_time :: int64
  get_alloc :: "nat \<Rightarrow> bool"
  set_time :: int64
  set_alloc :: "nat \<Rightarrow> bool"
  resolver :: resolver_env
  attempt :: "nat \<Rightarrow> attempt_io"

text \<open>
  How one pass from \<open>restart\<close> ends: it falls through to the success path with the
  descriptor, or jumps to \<open>fail\<close> or to \<open>fail1\<close> with \<open>ret\<close> and \<open>fd\<close>.
\<close>

datatype attempt_exit = Done int | GotoFail int int | GotoFail1 int int

definition sockopts :: "TCPContext \<Rightarrow> int \<Rightarrow> event list" where
  "sockopts s fd0 =
     (if recv_buffer_size s > 0 then [Setsockopt fd0 ''SO_RCVBUF'' (recv_buffer_size s)] else [])
     @ (if send_buffer_size s > 0 then [Setsockopt fd0 ''SO_SNDBUF'' (send_buffer_size s)] else [])"

text \<open>
  One pass from \<open>restart\<close> on the candidate \<open>a0\<close> whose \<open>ai_next\<close> is \<open>rest\<close>.
  \<open>hit\<close> is \<open>hit_dns_cache\<close>.
\<close>

definition tcp_open_attempt ::
  "open_env \<Rightarrow> TCPContext \<Rightarrow> int \<Rightarrow> bool \<Rightarrow> string \<Rightarrow> attempt_io \<Rightarrow> addrinfo
     \<Rightarrow> addrinfo list \<Rightarrow> AVDictionary \<Rightarrow> attempt_exit \<times> event list \<times> AVDictionary" where
  "tcp_open_attempt env s port hit hostname_bak io a0 rest d =
     (let a = fix_port port a0;
          fd0 = socket_ret io;
          sock = Socket (ai_family a) (ai_socktype a) (ai_protocol a)
      in
      if fd0 < 0 then (GotoFail (neterrno io) fd0, [sock], d)
      else
        let pre = sock # sockopts s fd0 in
        if listen s = 2 then
          (if listen_ret io < 0 then (GotoFail1 (listen_ret io) fd0, pre @ [Listen fd0], d)
           else (Done fd0, pre @ [Listen fd0], d))
        else if listen s = 1 then
          (if listen_bind_ret io < 0
           then (GotoFail1 (listen_bind_ret io) fd0, pre @ [ListenBind fd0], d)
           else (Done (listen_bind_ret io), pre @ [ListenBind fd0], d))
        else if will_open_ret io \<noteq> 0 then (GotoFail1 (will_open_ret io) fd0, pre @ [WillOpen], d)
        else
          let conn = pre @ [WillOpen, Connect fd0 a (c_div (open_timeout s) 1000) (rest \<noteq> [])] in
          if connect_ret io < 0 then
            (if did_open_ret io \<noteq> 0
             then (GotoFail1 (connect_ret io) fd0, conn @ [DidOpen (connect_ret io) fd0], d)
             else if connect_ret io = AVERROR_EXIT
             then (GotoFail1 (connect_ret io) fd0, conn @ [DidOpen (connect_ret io) fd0], d)
             else (GotoFail (connect_ret io) fd0, conn @ [DidOpen (connect_ret io) fd0], d))
          else if did_open_ret io \<noteq> 0
          then (GotoFail1 (did_open_ret io) fd0, conn @ [DidOpen 0 fd0], d)
          else (Done fd0, conn @ [DidOpen 0 fd0],
                if dns_cache s \<noteq> 0 \<and> \<not> hit \<and> control_ip io \<noteq> hostname_bak
                   \<and> hostname_bak \<noteq> []
                then set_dns_cache (set_time env) (set_alloc env) hostname_bak (a # rest) d
                else d))"

text \<open>
  The loop formed by \<open>restart\<close> and \<open>fail\<close>, on the chain that \<open>cur_ai\<close> points to; \<open>k\<close>
  counts the passes. It ends on the success path (\<open>Connected\<close>), at \<open>fail1\<close> with \<open>ret\<close> and
  \<open>fd\<close>, or by reading through a null \<open>cur_ai\<close>.
\<close>

datatype loop_exit = Connected int | AtFail1 int int | NullPointer

fun tcp_open_restart ::
  "open_env \<Rightarrow> TCPContext \<Rightarrow> int \<Rightarrow> bool \<Rightarrow> string \<Rightarrow> nat \<Rightarrow> addrinfo list \<Rightarrow> AVDictionary
     \<Rightarrow> loop_exit \<times> event list \<times> AVDictionary" where
  "tcp_open_restart env s port hit hostname_bak k [] d = (NullPointer, [], d)"
| "tcp_open_restart env s port hit hostname_bak k (a0 # rest) d =
     (case tcp_open_attempt env s port hit hostname_bak (attempt env k) a0 rest d of
        (Done fd1, evs, d1) \<Rightarrow> (Connected fd1, evs, d1)
      | (GotoFail1 r fd1, evs, d1) \<Rightarrow> (AtFail1 r fd1, evs, d1)
      | (GotoFail r fd1, evs, d1) \<Rightarrow>
          if rest \<noteq> [] then
            (case tcp_open_restart env s port hit hostname_bak (Suc k) rest d1 of
               (x, evs2, d2) \<Rightarrow>
                 (x, evs @ (if fd1 \<ge> 0 then [Closesocket fd1] else []) @ evs2, d2))
          else (AtFail1 r fd1, evs, d1))"

text \<open>The cache part of \<open>fail1\<close>, run when \<open>s->dns_cache && hit_dns_cache\<close>.\<close>

definition fail1_invalidate :: "string \<Rightarrow> AVDictionary \<Rightarrow> AVDictionary" where
  "fail1_invalidate hostname_bak d =
     (case av_dict_get d hostname_bak of
        Some (Some dns_cache_info) \<Rightarrow> av_dict_set_int d hostname_bak None
      | _ \<Rightarrow> d)"

text \<open>
  The globals of the file, the fields of \<open>URLContext\<close> that \<open>tcp_open\<close> writes, and the
  pieces of the URI as \<open>av_url_split\<close>, \<open>av_find_info_tag\<close> and \<open>strtol\<close> deliver them (those
  functions are not in this file): the protocol, the host name, the port, and the values
  of the \<open>listen\<close>, \<open>timeout\<close> and \<open>listen_timeout\<close> tags where the URI has them.
\<close>

record globals =
  dns_dictionary :: AVDictionary
  init_mutex_ret :: int
  key_once :: bool

record URLContext =
  rw_timeout_h :: int
  is_streamed :: int

record parsed_uri =
  uri_proto :: string
  uri_hostname :: string
  uri_port :: int
  tag_listen :: "int option"
  tag_timeout :: "int option"
  tag_listen_timeout :: "int option"

text \<open>\<open>snprintf(portstr, sizeof(portstr), "%d", port)\<close> for a port that passed the range test.\<close>

function decimal :: "nat \<Rightarrow> string" where
  "decimal n = (if n < 10 then [''0123456789'' ! n]
                else decimal (n div 10) @ [''0123456789'' ! (n mod 10)])"
  by pat_completeness auto
termination
  by (relation "measure id") auto

declare decimal.simps [simp del]

text \<open>
  How a call of \<open>tcp_open\<close> ends: \<open>Opened\<close> is \<open>return 0\<close> after \<open>s->fd = fd\<close>, \<open>Failed r\<close> is
  \<open>return r\<close> on an error path. A call that does not return is a \<open>stuck\<close> value: the
  resolver is still waiting at the end of the schedule, or \<open>cur_ai\<close> is null at \<open>restart\<close>.
\<close>

datatype open_exit = Opened | Failed int

datatype stuck = StillWaiting | NullDereference

text \<open>
  The start of \<open>tcp_open\<close>: the lazy initialisation of the dictionary's mutex
  (\<open>pthread_once\<close> runs \<open>private_mutex_init\<close> at most once in the process; where the mutex
  is not initialised the cache is switched off for this call) and the default of
  \<open>open_timeout\<close>.
\<close>

definition tcp_open_init :: "open_env \<Rightarrow> TCPContext \<Rightarrow> globals \<Rightarrow> TCPContext \<times> globals" where
  "tcp_open_init env s0 g0 =
     (let once = (dns_cache s0 \<noteq> 0 \<and> init_mutex_ret g0 \<noteq> 0);
          g1 = (if once \<and> \<not> key_once g0
                then g0\<lparr>key_once := True, init_mutex_ret := mutex_init_ret env\<rparr> else g0);
          s1 = (if once \<and> init_mutex_ret g1 \<noteq> 0 then s0\<lparr>dns_cache := 0\<rparr> else s0);
          s2 = (if open_timeout s1 < 0 then s1\<lparr>open_timeout := 15000000\<rparr> else s1)
      in (s2, g1))"

text \<open>The options taken from the tags of the URI.\<close>

definition tcp_open_tags :: "parsed_uri \<Rightarrow> TCPContext \<Rightarrow> TCPContext" where
  "tcp_open_tags uri s2 =
     (let s3 = (case tag_listen uri of None \<Rightarrow> s2 | Some v \<Rightarrow> s2\<lparr>listen := v\<rparr>);
          s4 = (case tag_timeout uri of
                  None \<Rightarrow> s3
                | Some v \<Rightarrow> if v \<ge> 0 then s3\<lparr>rw_timeout := v, open_timeout := v\<rparr>
                            else s3\<lparr>rw_timeout := v\<rparr>)
      in case tag_listen_timeout uri of None \<Rightarrow> s4 | Some v \<Rightarrow> s4\<lparr>listen_timeout := v\<rparr>)"

text \<open>The \<open>hints\<close> that \<open>tcp_open\<close> passes to the resolver.\<close>

definition tcp_open_hints :: "TCPContext \<Rightarrow> addrinfo" where
  "tcp_open_hints s =
     zero_addrinfo\<lparr>ai_family := AF_UNSPEC, ai_socktype := SOCK_STREAM,
                   ai_flags := (if listen s \<noteq> 0 then AI_PASSIVE else 0)\<rparr>"

text \<open>
  The cache lookup and the resolution of \<open>tcp_open\<close>, up to \<open>cur_ai = ai\<close>: whether the
  cache was hit (\<open>hit_dns_cache\<close>), the resolver's return code (0 on a hit, where the
  resolver is not called), what \<open>ai\<close> points to, the trace and the dictionary. \<open>None\<close>: the
  resolver has not returned at the end of its schedule.
\<close>

definition tcp_open_resolve ::
  "open_env \<Rightarrow> TCPContext \<Rightarrow> string \<Rightarrow> int \<Rightarrow> AVDictionary
     \<Rightarrow> (bool \<times> int \<times> addrinfo list option \<times> event list \<times> AVDictionary) option" where
  "tcp_open_resolve env s hostname port d =
     (let lookup = (if dns_cache s \<noteq> 0
                    then get_dns_cache s (get_time env) (get_alloc env) hostname d
                    else (0, None, d));
          hit = (fst lookup \<noteq> 0);
          d1 = snd (snd lookup)
      in
      if hit then Some (True, 0, fst (snd lookup), [], d1)
      else
        (case ijk_tcp_getaddrinfo_nonblock (resolver env) (Some hostname)
                (Some (decimal (nat port))) (Some (tcp_open_hints s))
                (word_of_int (addrinfo_timeout s)) (addrinfo_one_by_one s) of
           None \<Rightarrow> None
         | Some (r, ai, evs0) \<Rightarrow> Some (False, r, ai, evs0, d1)))"

definition tcp_open ::
  "open_env \<Rightarrow> TCPContext \<Rightarrow> URLContext \<Rightarrow> parsed_uri \<Rightarrow> globals
     \<Rightarrow> stuck + (open_exit \<times> TCPContext \<times> URLContext \<times> globals \<times> event list)" where
  "tcp_open env s0 h0 uri g0 =
     (case tcp_open_init env s0 g0 of
        (s2, g1) \<Rightarrow>
      if uri_proto uri \<noteq> ''tcp'' then Inr (Failed (AVERROR EINVAL), s2, h0, g1, [])
      else if uri_port uri \<le> 0 \<or> uri_port uri \<ge> 65536
      then Inr (Failed (AVERROR EINVAL), s2, h0, g1, [])
      else
        let s = tcp_open_tags uri s2;
            h1 = (if rw_timeout s \<ge> 0 then h0\<lparr>rw_timeout_h := rw_timeout s\<rparr> else h0);
            hostname_bak = uri_hostname uri
        in
        case tcp_open_resolve env s (uri_hostname uri) (uri_port uri) (dns_dictionary g1) of
          None \<Rightarrow> Inl StillWaiting
        | Some (hit, r, ai, evs0, d1) \<Rightarrow>
            if r \<noteq> 0 then Inr (Failed (AVERROR EIO), s, h1, g1\<lparr>dns_dictionary := d1\<rparr>, evs0)
            else
              (case tcp_open_restart env s (uri_port uri) hit hostname_bak 0
                      (case ai of None \<Rightarrow> [] | Some l \<Rightarrow> l) d1 of
                 (NullPointer, evs, d2) \<Rightarrow> Inl NullDereference
               | (Connected fd1, evs, d2) \<Rightarrow>
                   Inr (Opened, s\<lparr>fd := fd1\<rparr>, h1\<lparr>is_streamed := 1\<rparr>,
                        g1\<lparr>dns_dictionary := d2\<rparr>, evs0 @ evs)
               | (AtFail1 r1 fd1, evs, d2) \<Rightarrow>
                   Inr (Failed r1, s, h1,
                        g1\<lparr>dns_dictionary :=
                             (if dns_cache s \<noteq> 0 \<and> hit then fail1_invalidate hostname_bak d2
                              else d2)\<rparr>,
                        evs0 @ evs @ (if fd1 \<ge> 0 then [Closesocket fd1] else []))))"

section \<open>The scenarios of the spec\<close>

text \<open>
  The spec's rule for \<open>Lookup\<close>, in its words: the entry is returned when
  \<open>ttlMicros < 0\<close> or \<open>now - resolvedAt <= ttlMicros\<close>.
\<close>

definition spec_lookup_returns :: "int \<Rightarrow> int \<Rightarrow> bool" where
  "spec_lookup_returns ttl age = (ttl < 0 \<or> age \<le> ttl)"

text \<open>
  The spec's words for one candidate in the default connect mode. The candidate fails:
  the socket cannot be created, or the connect fails (with an error other than the
  interruption \<open>AVERROR_EXIT\<close>) while the observer's hooks let the attempt run and go on.
  The candidate connects: the socket is created, the hooks accept, the connect succeeds.
\<close>

definition candidate_fails :: "attempt_io \<Rightarrow> bool" where
  "candidate_fails io =
     (socket_ret io < 0
      \<or> (will_open_ret io = 0 \<and> connect_ret io < 0 \<and> connect_ret io \<noteq> AVERROR_EXIT
          \<and> did_open_ret io = 0))"

definition candidate_connects :: "attempt_io \<Rightarrow> bool" where
  "candidate_connects io =
     (0 \<le> socket_ret io \<and> will_open_ret io = 0 \<and> 0 \<le> connect_ret io \<and> did_open_ret io = 0)"

text \<open>
  The observer vetoes a connection: the socket is created, the connect succeeds, and
  \<open>av_application_on_tcp_did_open\<close> returns non-zero.
\<close>

definition candidate_vetoed :: "attempt_io \<Rightarrow> bool" where
  "candidate_vetoed io =
     (0 \<le> socket_ret io \<and> will_open_ret io = 0 \<and> 0 \<le> connect_ret io
      \<and> did_open_ret io \<noteq> 0)"

text \<open>The error code that a failing candidate leaves in \<open>ret\<close>.\<close>

definition fail_code :: "attempt_io \<Rightarrow> int" where
  "fail_code io = (if socket_ret io < 0 then neterrno io else connect_ret io)"

text \<open>The sockets created and closed, in the order of the trace.\<close>

fun socket_events :: "event list \<Rightarrow> event list" where
  "socket_events [] = []"
| "socket_events (Socket f t p # evs) = Socket f t p # socket_events evs"
| "socket_events (Closesocket d # evs) = Closesocket d # socket_events evs"
| "socket_events (_ # evs) = socket_events evs"

text \<open>
  The spec's failover, in its words: one socket per candidate, in list order, and each
  candidate that has a successor has its socket (where one was created) closed before
  the successor's socket is created. \<open>io k\<close> are the answers for the \<open>k\<close>-th candidate tried.
\<close>

fun failover_sockets :: "(nat \<Rightarrow> attempt_io) \<Rightarrow> nat \<Rightarrow> addrinfo list \<Rightarrow> event list" where
  "failover_sockets io k [] = []"
| "failover_sockets io k [c] = [Socket (ai_family c) (ai_socktype c) (ai_protocol c)]"
| "failover_sockets io k (c # c' # cs) =
     Socket (ai_family c) (ai_socktype c) (ai_protocol c)
       # (if 0 \<le> socket_ret (io k) then [Closesocket (socket_ret (io k))] else [])
       @ failover_sockets io (Suc k) (c' # cs)"

text \<open>
  The spec's failover as a whole trace: for each candidate, in list order, a socket is
  created; where that succeeds the buffer sizes are set, the will-connect hook is called,
  the connect is attempted on the candidate's address and the did-connect hook is told
  its result; and a candidate that has a successor has its socket closed before the
  successor's socket is created.
\<close>

fun failover_trace ::
  "TCPContext \<Rightarrow> int \<Rightarrow> (nat \<Rightarrow> attempt_io) \<Rightarrow> nat \<Rightarrow> addrinfo list \<Rightarrow> event list" where
  "failover_trace s port io k [] = []"
| "failover_trace s port io k (c # cs) =
     Socket (ai_family c) (ai_socktype c) (ai_protocol c)
       # (if socket_ret (io k) < 0 then []
          else sockopts s (socket_ret (io k))
               @ [WillOpen,
                  Connect (socket_ret (io k)) (fix_port port c) (c_div (open_timeout s) 1000)
                    (cs \<noteq> []),
                  DidOpen (if connect_ret (io k) < 0 then connect_ret (io k) else 0)
                    (socket_ret (io k))]
               @ (if cs \<noteq> [] then [Closesocket (socket_ret (io k))] else []))
       @ failover_trace s port io (Suc k) cs"

text \<open>
  One attempt in any listen mode, in the spec's words: it succeeds when the socket is
  created and, by mode, the listen succeeds, or the bind and accept succeed, or the hooks
  accept and the connect succeeds. Otherwise its error is the code of the step that
  failed.
\<close>

definition attempt_succeeds :: "TCPContext \<Rightarrow> attempt_io \<Rightarrow> bool" where
  "attempt_succeeds s io =
     (0 \<le> socket_ret io
      \<and> (if listen s = 2 then 0 \<le> listen_ret io
         else if listen s = 1 then 0 \<le> listen_bind_ret io
         else will_open_ret io = 0 \<and> 0 \<le> connect_ret io \<and> did_open_ret io = 0))"

definition attempt_error :: "TCPContext \<Rightarrow> attempt_io \<Rightarrow> int" where
  "attempt_error s io =
     (if socket_ret io < 0 then neterrno io
      else if listen s = 2 then listen_ret io
      else if listen s = 1 then listen_bind_ret io
      else if will_open_ret io \<noteq> 0 then will_open_ret io
      else if connect_ret io < 0 then connect_ret io
      else did_open_ret io)"

text \<open>
  The wait loop has been waiting through the wakeups \<open>ws\<close>: at each of them the test at
  the top of the loop went on, the timed wait returned 0 or \<open>ETIMEDOUT\<close> and the interrupt
  check was negative. The result is the clock and the request with which the loop comes
  to its next test.
\<close>

fun waited ::
  "int64 \<Rightarrow> int64 \<Rightarrow> int64 \<Rightarrow> TCPAddrinfoRequest \<Rightarrow> wakeup list
     \<Rightarrow> (int64 \<times> TCPAddrinfoRequest) option" where
  "waited start timeout now req [] = Some (now, req)"
| "waited start timeout now req (w # ws) =
     (if wait_check start timeout now req = None
         \<and> (cond_ret w = 0 \<or> cond_ret w = ETIMEDOUT) \<and> \<not> interrupted w
      then waited start timeout (time_after w) (req_after w) ws
      else None)"

section \<open>Example inputs\<close>

text \<open>Every allocation succeeds.\<close>

definition all_ok :: "nat \<Rightarrow> bool" where
  "all_ok k = True"

text \<open>
  An IPv4 candidate as \<open>getaddrinfo\<close> returns it on the target: a 16-byte \<open>sockaddr_in\<close>
  (length, family, port 80, address 93.184.216.34, padding).
\<close>

definition ex_addr4 :: "byte list" where
  "ex_addr4 = [16, 2, 0, 80, 93, 184, 216, 34, 0, 0, 0, 0, 0, 0, 0, 0]"

definition ex_ai4 :: addrinfo where
  "ex_ai4 = \<lparr>ai_flags = 0, ai_family = 2, ai_socktype = 1, ai_protocol = 6,
             ai_addrlen = 16, ai_canonname = None, ai_addr = Some ex_addr4\<rparr>"

text \<open>
  An IPv6 candidate: a 28-byte \<open>sockaddr_in6\<close> (length, family, port 80, flow
  information, the address 2001:db8::1, scope).
\<close>

definition ex_addr6 :: "byte list" where
  "ex_addr6 = [28, 30, 0, 80, 0, 0, 0, 0,
               32, 1, 13, 184, 0, 0, 0, 0, 0, 0, 0, 0, 0, 0, 0, 1,
               0, 0, 0, 0]"

definition ex_ai6 :: addrinfo where
  "ex_ai6 = \<lparr>ai_flags = 0, ai_family = 30, ai_socktype = 1, ai_protocol = 6,
             ai_addrlen = 28, ai_canonname = None, ai_addr = Some ex_addr6\<rparr>"

text \<open>The option defaults of the \<open>options\<close> table, with the DNS cache switched on.\<close>

definition ex_ctx :: TCPContext where
  "ex_ctx = \<lparr>fd = 0, listen = 0, open_timeout = - 1, rw_timeout = - 1, listen_timeout = - 1,
            recv_buffer_size = - 1, send_buffer_size = - 1, addrinfo_one_by_one = 0,
            addrinfo_timeout = - 1, dns_cache = 1, dns_cache_timeout = - 1,
            dns_cache_clear = 0\<rparr>"

text \<open>A dictionary holding one entry, stored at time \<open>t\<close> for \<open>example.com\<close>.\<close>

definition ex_entry :: "int64 \<Rightarrow> DnsCacheInfo" where
  "ex_entry t = \<lparr>dns_cache_time = t, cache_res = [private_copy ex_ai4 ex_addr4]\<rparr>"

definition ex_dict :: "int64 \<Rightarrow> AVDictionary" where
  "ex_dict t = [''example.com'' \<mapsto> Some (ex_entry t)]"

text \<open>
  An environment: the platform resolves every name to the IPv4 and the IPv6 candidate, in
  that order; the first pass from \<open>restart\<close> gets a socket whose connect is refused (-61,
  \<open>AVERROR(ECONNREFUSED)\<close> on the target), every later pass a socket that connects. The
  mutex of the dictionary has been initialised by an earlier call.
\<close>

definition ex_gai :: getaddrinfo_fun where
  "ex_gai h sv hi = (0, [ex_ai4, ex_ai6])"

definition ex_req :: TCPAddrinfoRequest where
  "ex_req = \<lparr>req_hostname = Some ''example.com'', req_servname = Some ''80'',
              req_hints = zero_addrinfo, res = [], finished = 0, last_error = 0\<rparr>"

definition ex_resolver :: resolver_env where
  "ex_resolver = \<lparr>getaddrinfo = ex_gai, req_alloc = all_ok, buffer_ref_ok = True,
                   pthread_create_ret = 0, start_time = 0, first_view = ex_req,
                   wakeups = []\<rparr>"

definition ex_io_refused :: attempt_io where
  "ex_io_refused = \<lparr>socket_ret = 3, neterrno = 0, listen_ret = 0, listen_bind_ret = 0,
                     will_open_ret = 0, connect_ret = - 61, did_open_ret = 0,
                     control_ip = []\<rparr>"

definition ex_io_ok :: attempt_io where
  "ex_io_ok = \<lparr>socket_ret = 4, neterrno = 0, listen_ret = 0, listen_bind_ret = 0,
                will_open_ret = 0, connect_ret = 0, did_open_ret = 0,
                control_ip = ''2001:db8::1''\<rparr>"

definition ex_attempts :: "nat \<Rightarrow> attempt_io" where
  "ex_attempts k = (if k = 0 then ex_io_refused else ex_io_ok)"

definition ex_env :: open_env where
  "ex_env = \<lparr>mutex_init_ret = 0, get_time = 9, get_alloc = all_ok, set_time = 9,
             set_alloc = all_ok, resolver = ex_resolver, attempt = ex_attempts\<rparr>"

definition ex_uri :: parsed_uri where
  "ex_uri = \<lparr>uri_proto = ''tcp'', uri_hostname = ''example.com'', uri_port = 80,
             tag_listen = None, tag_timeout = None, tag_listen_timeout = None\<rparr>"

definition ex_globals :: "AVDictionary \<Rightarrow> globals" where
  "ex_globals d = \<lparr>dns_dictionary = d, init_mutex_ret = 0, key_once = True\<rparr>"

definition ex_h :: URLContext where
  "ex_h = \<lparr>rw_timeout_h = 0, is_streamed = 0\<rparr>"

text \<open>Every pass is refused.\<close>

definition ex_all_refused :: "nat \<Rightarrow> attempt_io" where
  "ex_all_refused k = ex_io_refused"

text \<open>The first pass connects and is vetoed by the observer; later passes connect.\<close>

definition ex_io_veto :: attempt_io where
  "ex_io_veto = \<lparr>socket_ret = 3, neterrno = 0, listen_ret = 0, listen_bind_ret = 0,
                  will_open_ret = 0, connect_ret = 0, did_open_ret = - 1,
                  control_ip = ''93.184.216.34''\<rparr>"

definition ex_veto_first :: "nat \<Rightarrow> attempt_io" where
  "ex_veto_first k = (if k = 0 then ex_io_veto else ex_io_ok)"

text \<open>
  The first pass gets a socket whose connect is refused, and the did-connect hook answers
  1 to the error; later passes connect.
\<close>

definition ex_io_refused_abort :: attempt_io where
  "ex_io_refused_abort = ex_io_refused\<lparr>did_open_ret := 1\<rparr>"

definition ex_abort_first :: "nat \<Rightarrow> attempt_io" where
  "ex_abort_first k = (if k = 0 then ex_io_refused_abort else ex_io_ok)"

text \<open>The dictionary after \<open>example.com\<close> was cached with the IPv4 candidate at time 5.\<close>

definition ex_cached :: AVDictionary where
  "ex_cached = set_dns_cache 5 all_ok ''example.com'' [ex_ai4] Map.empty"

text \<open>
  Platforms for the examples: one that resolves no family (error code 8, \<open>EAI_NONAME\<close> on
  the target), and one that resolves IPv6 only.
\<close>

definition ex_gai_fail :: getaddrinfo_fun where
  "ex_gai_fail h sv hi = (8, [])"

definition ex_gai_v6 :: getaddrinfo_fun where
  "ex_gai_v6 h sv hi =
     (case hi of
        None \<Rightarrow> (0, [ex_ai6])
      | Some x \<Rightarrow> if ai_family x = AF_INET then (8, []) else (0, [ex_ai6]))"

text \<open>
  A schedule for the examples: the request as the waiter finds it after the IPv4 call of
  the split-by-family worker has failed and while the IPv6 call is pending; then one
  wakeup by timeout, 1000001 microseconds after the start.
\<close>

definition ex_view_v4_failed :: TCPAddrinfoRequest where
  "ex_view_v4_failed = fst (one_by_one_step ex_gai_fail AF_INET ex_req)"

definition ex_late_wakeup :: wakeup where
  "ex_late_wakeup = \<lparr>cond_ret = ETIMEDOUT, interrupted = False, time_after = 1000001,
                      req_after = ex_view_v4_failed\<rparr>"

definition ex_resolver_deadline :: resolver_env where
  "ex_resolver_deadline =
     \<lparr>getaddrinfo = ex_gai_fail, req_alloc = all_ok, buffer_ref_ok = True,
      pthread_create_ret = 0, start_time = 0, first_view = ex_view_v4_failed,
      wakeups = [ex_late_wakeup]\<rparr>"

text \<open>A wakeup at which the interrupt callback asks to stop.\<close>

definition ex_interrupt_wakeup :: wakeup where
  "ex_interrupt_wakeup = \<lparr>cond_ret = 0, interrupted = True, time_after = 100,
                           req_after = ex_req\<lparr>res := [ex_ai4], finished := 1\<rparr>\<rparr>"

text \<open>
  A schedule in which the waiter finds the request untouched, wakes once by timeout and
  is interrupted at the second wakeup, when the worker has just finished with a result.
\<close>

definition ex_quiet_wakeup :: wakeup where
  "ex_quiet_wakeup = \<lparr>cond_ret = ETIMEDOUT, interrupted = False, time_after = 100000,
                       req_after = ex_req\<rparr>"

definition ex_resolver_intr :: resolver_env where
  "ex_resolver_intr = ex_resolver\<lparr>wakeups := [ex_quiet_wakeup, ex_interrupt_wakeup]\<rparr>"

section \<open>Properties of the DNS cache\<close>

text \<open>The expiry time \<open>dns_cache_time + dns_cache_timeout * 1000\<close> where it does not wrap.\<close>

lemma sint_expiry:
  fixes t ttl :: int64
  assumes "0 \<le> sint ttl" "sint t + sint ttl * 1000 < 2 ^ 63"
  shows "sint (t + ttl * 1000) = sint t + sint ttl * 1000"
proof -
  have lo: "- (2 ^ 63) \<le> sint t" using sint_ge [of t] by simp
  have eq: "t + ttl * 1000 = word_of_int (sint t + sint ttl * 1000)" by simp
  have "sint (t + ttl * 1000) = sint (word_of_int (sint t + sint ttl * 1000) :: int64)"
    by (simp only: eq)
  also have "\<dots> = signed_take_bit (LENGTH(64) - 1) (sint t + sint ttl * 1000)"
    by (simp only: sint_sbintrunc')
  also have "\<dots> = sint t + sint ttl * 1000"
    using lo assms by (intro signed_take_bit_int_eq_self) auto
  finally show ?thesis .
qed

text \<open>The test of \<open>get_dns_cache\<close> on a live, usable entry.\<close>

lemma get_dns_cache_live:
  assumes "d hostname = Some (Some e)" "cache_res e = a # rest" "ai_addr a = Some bytes"
    and "hostname \<noteq> []" "0 \<le> sint cur_time" "dns_cache_clear s = 0"
      "malloc_ok 0" "malloc_ok (Suc 0)"
  shows "get_dns_cache s cur_time malloc_ok hostname d =
    (if sint (dns_cache_timeout s) < 0
        \<or> sint cur_time < sint (dns_cache_time e + dns_cache_timeout s * 1000)
     then (1, Some [private_copy a bytes], d) else (0, None, d(hostname \<mapsto> None)))"
  using assms
  by (simp add: get_dns_cache_def av_dict_get_def av_dict_set_int_def word_sless_alt)

text \<open>
  Claim C1, as amended. For a live entry with a usable endpoint, a non-empty host name, a
  non-negative clock, the clear flag unset and the allocations succeeding, with the age
  \<open>now - resolvedAt\<close>:
  a negative TTL returns the copy whatever the age;
  a non-negative TTL returns the copy whenever the age is strictly below the TTL, provided
  that \<open>resolvedAt + 1000 * TTL\<close>, the expiry time that the code computes, is below \<open>2^63\<close>;
  a non-negative TTL invalidates the entry and returns absent whenever the age is at least
  \<open>1000 * TTL\<close>, so a TTL of zero does so at age zero already, an age equal to the TTL;
  and every call either returns the copy and leaves the dictionary alone, or returns
  absent and leaves the key with a null value. Ages from the TTL up to \<open>1000 * TTL\<close> are
  left open.
\<close>

theorem C1_lookup_ttl:
  assumes live: "d hostname = Some (Some e)" "cache_res e = a # rest" "ai_addr a = Some bytes"
    and call: "hostname \<noteq> []" "0 \<le>s cur_time" "dns_cache_clear s = 0"
      "malloc_ok 0" "malloc_ok (Suc 0)"
  shows "(dns_cache_timeout s <s 0 \<longrightarrow>
            get_dns_cache s cur_time malloc_ok hostname d = (1, Some [private_copy a bytes], d))
       \<and> (0 \<le>s dns_cache_timeout s
            \<and> sint cur_time - sint (dns_cache_time e) < sint (dns_cache_timeout s)
            \<and> sint (dns_cache_time e) + sint (dns_cache_timeout s) * 1000 < 2 ^ 63 \<longrightarrow>
            get_dns_cache s cur_time malloc_ok hostname d = (1, Some [private_copy a bytes], d))
       \<and> (0 \<le>s dns_cache_timeout s
            \<and> sint (dns_cache_timeout s) * 1000 \<le> sint cur_time - sint (dns_cache_time e) \<longrightarrow>
            get_dns_cache s cur_time malloc_ok hostname d = (0, None, d(hostname \<mapsto> None)))
       \<and> (get_dns_cache s cur_time malloc_ok hostname d = (1, Some [private_copy a bytes], d)
            \<or> get_dns_cache s cur_time malloc_ok hostname d = (0, None, d(hostname \<mapsto> None)))"
proof -
  have now: "0 \<le> sint cur_time"
    using call(2) by (simp add: word_sle_eq)
  note char = get_dns_cache_live [of d hostname e a rest bytes cur_time s malloc_ok,
      OF live call(1) now call(3-5)]
  have never: "dns_cache_timeout s <s 0 \<longrightarrow>
      get_dns_cache s cur_time malloc_ok hostname d = (1, Some [private_copy a bytes], d)"
    by (simp add: char word_sless_alt)
  have young: "get_dns_cache s cur_time malloc_ok hostname d = (1, Some [private_copy a bytes], d)"
    if nonneg: "0 \<le>s dns_cache_timeout s"
      and age: "sint cur_time - sint (dns_cache_time e) < sint (dns_cache_timeout s)"
      and fits: "sint (dns_cache_time e) + sint (dns_cache_timeout s) * 1000 < 2 ^ 63"
  proof -
    have ttl: "0 \<le> sint (dns_cache_timeout s)"
      using nonneg by (simp add: word_sle_eq)
    have "sint (dns_cache_time e + dns_cache_timeout s * 1000)
        = sint (dns_cache_time e) + sint (dns_cache_timeout s) * 1000"
      by (rule sint_expiry [OF ttl fits])
    moreover have "sint (dns_cache_timeout s) \<le> sint (dns_cache_timeout s) * 1000"
      using ttl by simp
    ultimately have "sint cur_time < sint (dns_cache_time e + dns_cache_timeout s * 1000)"
      using age by linarith
    then show ?thesis by (simp add: char)
  qed
  have old: "get_dns_cache s cur_time malloc_ok hostname d = (0, None, d(hostname \<mapsto> None))"
    if nonneg: "0 \<le>s dns_cache_timeout s"
      and age: "sint (dns_cache_timeout s) * 1000 \<le> sint cur_time - sint (dns_cache_time e)"
  proof -
    have ttl: "0 \<le> sint (dns_cache_timeout s)"
      using nonneg by (simp add: word_sle_eq)
    have top: "sint cur_time < 2 ^ 63"
      using sint_lt [of cur_time] by simp
    have fits: "sint (dns_cache_time e) + sint (dns_cache_timeout s) * 1000 < 2 ^ 63"
      using age top by linarith
    have "sint (dns_cache_time e + dns_cache_timeout s * 1000)
        = sint (dns_cache_time e) + sint (dns_cache_timeout s) * 1000"
      by (rule sint_expiry [OF ttl fits])
    then have "\<not> sint cur_time < sint (dns_cache_time e + dns_cache_timeout s * 1000)"
      using age by linarith
    moreover have "\<not> sint (dns_cache_timeout s) < 0"
      using ttl by simp
    ultimately show ?thesis by (simp add: char)
  qed
  have either: "get_dns_cache s cur_time malloc_ok hostname d = (1, Some [private_copy a bytes], d)
      \<or> get_dns_cache s cur_time malloc_ok hostname d = (0, None, d(hostname \<mapsto> None))"
    by (simp add: char)
  from never young old either show ?thesis by blast
qed

text \<open>
  The four cases on the entry stored at time 5: no expiry with the TTL -1; age 19 under a
  TTL of 20; age 20000 under a TTL of 20; age 0 under a TTL of 0.
\<close>

theorem C1_lookup_ttl_witness:
  "get_dns_cache ex_ctx 900 all_ok ''example.com'' (ex_dict 5)
       = (1, Some [private_copy (private_copy ex_ai4 ex_addr4) ex_addr4], ex_dict 5)
   \<and> get_dns_cache (ex_ctx\<lparr>dns_cache_timeout := 20\<rparr>) 24 all_ok ''example.com'' (ex_dict 5)
       = (1, Some [private_copy (private_copy ex_ai4 ex_addr4) ex_addr4], ex_dict 5)
   \<and> get_dns_cache (ex_ctx\<lparr>dns_cache_timeout := 20\<rparr>) 20005 all_ok ''example.com'' (ex_dict 5)
       = (0, None, (ex_dict 5)(''example.com'' \<mapsto> None))
   \<and> get_dns_cache (ex_ctx\<lparr>dns_cache_timeout := 0\<rparr>) 5 all_ok ''example.com'' (ex_dict 5)
       = (0, None, (ex_dict 5)(''example.com'' \<mapsto> None))"
  using
    C1_lookup_ttl [of "ex_dict 5" "''example.com''" "ex_entry 5" "private_copy ex_ai4 ex_addr4"
      "[]" ex_addr4 900 ex_ctx all_ok]
    C1_lookup_ttl [of "ex_dict 5" "''example.com''" "ex_entry 5" "private_copy ex_ai4 ex_addr4"
      "[]" ex_addr4 24 "ex_ctx\<lparr>dns_cache_timeout := 20\<rparr>" all_ok]
    C1_lookup_ttl [of "ex_dict 5" "''example.com''" "ex_entry 5" "private_copy ex_ai4 ex_addr4"
      "[]" ex_addr4 20005 "ex_ctx\<lparr>dns_cache_timeout := 20\<rparr>" all_ok]
    C1_lookup_ttl [of "ex_dict 5" "''example.com''" "ex_entry 5" "private_copy ex_ai4 ex_addr4"
      "[]" ex_addr4 5 "ex_ctx\<lparr>dns_cache_timeout := 0\<rparr>" all_ok]
  by (simp add: ex_dict_def ex_entry_def ex_ctx_def all_ok_def private_copy_def memcpy_def
      sizeof_sockaddr_def ex_ai4_def ex_addr4_def word_sle_eq word_sless_alt)

text \<open>
  Claim C1 as stated fails: with a TTL of 0 and an entry stored at the very time of the
  lookup the age equals the TTL, the spec's rule returns the entry, and the code
  invalidates it and returns absent.
\<close>

theorem C1_counterexample:
  "spec_lookup_returns (sint (dns_cache_timeout (ex_ctx\<lparr>dns_cache_timeout := 0\<rparr>)))
       (sint (5 :: int64) - sint (dns_cache_time (ex_entry 5)))
   \<and> get_dns_cache (ex_ctx\<lparr>dns_cache_timeout := 0\<rparr>) 5 all_ok ''example.com'' (ex_dict 5)
       = (0, None, (ex_dict 5)(''example.com'' \<mapsto> None))"
  by (simp add: spec_lookup_returns_def ex_ctx_def ex_entry_def ex_dict_def get_dns_cache_def
      av_dict_get_def av_dict_set_int_def all_ok_def word_sless_alt)

text \<open>
  The factor 1000 in the test of \<open>get_dns_cache\<close>: the help text of \<open>dns_cache_timeout\<close>
  gives the TTL in microseconds, the unit of \<open>av_gettime\<close>, yet with a TTL of 1 an entry
  of age 500 is still returned, and at age 1000 it is not.
\<close>

lemma get_dns_cache_ttl_factor:
  "get_dns_cache (ex_ctx\<lparr>dns_cache_timeout := 1\<rparr>) 505 all_ok ''example.com'' (ex_dict 5)
     = (1, Some [private_copy (private_copy ex_ai4 ex_addr4) ex_addr4], ex_dict 5)"
  "get_dns_cache (ex_ctx\<lparr>dns_cache_timeout := 1\<rparr>) 1005 all_ok ''example.com'' (ex_dict 5)
     = (0, None, (ex_dict 5)(''example.com'' \<mapsto> None))"
  by (simp_all add: ex_ctx_def ex_entry_def ex_dict_def get_dns_cache_def av_dict_get_def
      av_dict_set_int_def all_ok_def word_sless_alt private_copy_def ex_ai4_def memcpy_def
      sizeof_sockaddr_def ex_addr4_def)

text \<open>What a hit of \<open>get_dns_cache\<close> returns.\<close>

lemma get_dns_cache_hit:
  assumes "get_dns_cache s cur_time malloc_ok hostname d = (r, Some l, d')"
  shows "r = 1 \<and> d' = d
       \<and> (\<exists>e a rest bytes. d hostname = Some (Some e) \<and> cache_res e = a # rest
             \<and> ai_addr a = Some bytes \<and> l = [private_copy a bytes])"
  using assms
  by (auto simp: get_dns_cache_def av_dict_get_def
      split: if_splits option.splits list.splits)




section \<open>Properties of the connection loop\<close>

lemma socket_events_append:
  "socket_events (xs @ ys) = socket_events xs @ socket_events ys"
  by (induction xs rule: socket_events.induct) simp_all

lemma socket_events_sockopts: "socket_events (sockopts s d) = []"
  by (simp add: sockopts_def)

lemma fix_port_fields:
  "ai_family (fix_port port a) = ai_family a"
  "ai_socktype (fix_port port a) = ai_socktype a"
  "ai_protocol (fix_port port a) = ai_protocol a"
  by (simp_all add: fix_port_def split: option.splits)

text \<open>One pass on a candidate that fails jumps to \<open>fail\<close>; the cache is not touched.\<close>

lemma attempt_fails:
  assumes "candidate_fails io" "listen s \<noteq> 1" "listen s \<noteq> 2"
  shows "\<exists>evs. tcp_open_attempt env s port hit hb io a rest d
                 = (GotoFail (fail_code io) (socket_ret io), evs, d)
               \<and> socket_events evs = [Socket (ai_family a) (ai_socktype a) (ai_protocol a)]"
  using assms
  by (auto simp: candidate_fails_def fail_code_def tcp_open_attempt_def Let_def
      socket_events_append socket_events_sockopts fix_port_fields)

text \<open>The sockets of the spec's whole failover trace are the spec's failover sockets.\<close>

lemma socket_events_failover_trace:
  "socket_events (failover_trace s port io k cs) = failover_sockets io k cs"
proof (induction cs arbitrary: k)
  case Nil
  show ?case by simp
next
  case (Cons c cs)
  show ?case
  proof (cases cs)
    case Nil
    then show ?thesis
      by (simp add: socket_events_append socket_events_sockopts)
  next
    case (Cons c' cs')
    with Cons.IH [of "Suc k"] show ?thesis
      by (auto simp: socket_events_append socket_events_sockopts)
  qed
qed

text \<open>The trace of one pass on a candidate that fails, and of one on a candidate that connects.\<close>

lemma attempt_fails_trace:
  assumes "candidate_fails io" "listen s \<noteq> 1" "listen s \<noteq> 2"
  shows "tcp_open_attempt env s port hit hb io a rest d
           = (GotoFail (fail_code io) (socket_ret io),
              Socket (ai_family a) (ai_socktype a) (ai_protocol a)
                # (if socket_ret io < 0 then []
                   else sockopts s (socket_ret io)
                        @ [WillOpen,
                           Connect (socket_ret io) (fix_port port a)
                             (c_div (open_timeout s) 1000) (rest \<noteq> []),
                           DidOpen (if connect_ret io < 0 then connect_ret io else 0)
                             (socket_ret io)]),
              d)"
  using assms
  by (auto simp: candidate_fails_def fail_code_def tcp_open_attempt_def Let_def fix_port_fields)

lemma attempt_connects_trace:
  assumes "candidate_connects io" "listen s \<noteq> 1" "listen s \<noteq> 2"
  shows "tcp_open_attempt env s port hit hb io a rest d
           = (Done (socket_ret io),
              Socket (ai_family a) (ai_socktype a) (ai_protocol a)
                # (if socket_ret io < 0 then []
                   else sockopts s (socket_ret io)
                        @ [WillOpen,
                           Connect (socket_ret io) (fix_port port a)
                             (c_div (open_timeout s) 1000) (rest \<noteq> []),
                           DidOpen (if connect_ret io < 0 then connect_ret io else 0)
                             (socket_ret io)]),
              if dns_cache s \<noteq> 0 \<and> \<not> hit \<and> control_ip io \<noteq> hb \<and> hb \<noteq> []
              then set_dns_cache (set_time env) (set_alloc env) hb (fix_port port a # rest) d
              else d)"
  using assms
  by (auto simp: candidate_connects_def tcp_open_attempt_def Let_def fix_port_fields)

text \<open>
  The loop on a list whose candidates all fail except perhaps the last: it ends at the
  last candidate, connected or at \<open>fail1\<close>, with the spec's failover trace.
\<close>

lemma restart_failover_trace:
  assumes mode: "listen s \<noteq> 1" "listen s \<noteq> 2"
  shows "cs \<noteq> [] \<Longrightarrow> (\<forall>i < length cs - 1. candidate_fails (attempt env (k + i))) \<Longrightarrow>
     (candidate_connects (attempt env (k + (length cs - 1))) \<longrightarrow>
        tcp_open_restart env s port hit hb k cs d
          = (Connected (socket_ret (attempt env (k + (length cs - 1)))),
             failover_trace s port (attempt env) k cs,
             if dns_cache s \<noteq> 0 \<and> \<not> hit
                \<and> control_ip (attempt env (k + (length cs - 1))) \<noteq> hb \<and> hb \<noteq> []
             then set_dns_cache (set_time env) (set_alloc env) hb [fix_port port (last cs)] d
             else d))
   \<and> (candidate_fails (attempt env (k + (length cs - 1))) \<longrightarrow>
        tcp_open_restart env s port hit hb k cs d
          = (AtFail1 (fail_code (attempt env (k + (length cs - 1))))
               (socket_ret (attempt env (k + (length cs - 1)))),
             failover_trace s port (attempt env) k cs, d))"
proof (induction cs arbitrary: k)
  case Nil
  then show ?case by simp
next
  case (Cons c cs)
  show ?case
  proof (cases cs)
    case Nil
    show ?thesis
      unfolding Nil
      by (auto simp: attempt_connects_trace [OF _ mode] attempt_fails_trace [OF _ mode]
          candidate_connects_def)
  next
    case (Cons c' cs')
    have first: "candidate_fails (attempt env k)"
      using Cons.prems(2) Cons by (auto dest: spec [of _ 0])
    have later: "\<forall>i < length cs - 1. candidate_fails (attempt env (Suc k + i))"
    proof (intro allI impI)
      fix i assume "i < length cs - 1"
      then have "Suc i < length (c # cs) - 1" using Cons by simp
      with Cons.prems(2) have "candidate_fails (attempt env (k + Suc i))" by blast
      then show "candidate_fails (attempt env (Suc k + i))" by simp
    qed
    have ne: "cs \<noteq> []" using Cons by simp
    have idx: "k + (length (c # cs) - 1) = Suc k + (length cs - 1)"
      using Cons by simp
    have lst: "last (c # cs) = last cs" using ne by simp
    note IH = Cons.IH [OF ne later]
    show ?thesis
      unfolding idx lst
      using IH ne first
      by (auto simp: attempt_fails_trace [OF first mode] candidate_fails_def)
  qed
qed


text \<open>\<open>tcp_open\<close> from \<open>cur_ai = ai\<close> on, once the URI is accepted and the candidates are there.\<close>

lemma tcp_open_resolved:
  assumes "uri_proto uri = ''tcp''" "0 < uri_port uri" "uri_port uri < 65536"
    and "tcp_open_init env s0 g0 = (s2, g1)" "tcp_open_tags uri s2 = s"
    and "tcp_open_resolve env s (uri_hostname uri) (uri_port uri) (dns_dictionary g1)
           = Some (hit, 0, Some cs, evs0, d1)"
  shows "tcp_open env s0 h0 uri g0 =
    (case tcp_open_restart env s (uri_port uri) hit (uri_hostname uri) 0 cs d1 of
       (NullPointer, evs, d2) \<Rightarrow> Inl NullDereference
     | (Connected fd1, evs, d2) \<Rightarrow>
         Inr (Opened, s\<lparr>fd := fd1\<rparr>,
              (if rw_timeout s \<ge> 0 then h0\<lparr>rw_timeout_h := rw_timeout s\<rparr> else h0)
                \<lparr>is_streamed := 1\<rparr>,
              g1\<lparr>dns_dictionary := d2\<rparr>, evs0 @ evs)
     | (AtFail1 r1 fd1, evs, d2) \<Rightarrow>
         Inr (Failed r1, s,
              (if rw_timeout s \<ge> 0 then h0\<lparr>rw_timeout_h := rw_timeout s\<rparr> else h0),
              g1\<lparr>dns_dictionary :=
                   (if dns_cache s \<noteq> 0 \<and> hit then fail1_invalidate (uri_hostname uri) d2
                    else d2)\<rparr>,
              evs0 @ evs @ (if fd1 \<ge> 0 then [Closesocket fd1] else [])))"
  using assms
  by (simp add: tcp_open_def Let_def cong: prod.case_cong loop_exit.case_cong)

text \<open>
  Claim C2, as amended. In the default connect mode, take a non-empty candidate list of
  length \<open>N\<close> whose first \<open>N - 1\<close> candidates fail in this sense: the socket cannot be
  created, or the will-connect hook answers 0, the connect fails with an error other than
  \<open>AVERROR_EXIT\<close> and the did-connect hook answers 0 to that error. Then \<open>tcp_open\<close> tries
  the candidates strictly in list order (socket, buffer sizes, will-connect hook, connect
  on the candidate's address, did-connect hook), passes over a candidate whose socket
  cannot be created as over one whose connect fails, and closes the socket of each failed
  candidate before it creates the next one. Where the last candidate connects (socket
  created, hooks answering 0), the call succeeds with the descriptor of the \<open>N\<close>-th socket
  and stores that candidate in the cache under the code's condition; where the last
  candidate fails too, the call closes its socket and fails with its error code, so a
  failing candidate ends the operation only when it has no successor.
\<close>

theorem C2_failover:
  assumes uri: "uri_proto uri = ''tcp''" "0 < uri_port uri" "uri_port uri < 65536"
    and init: "tcp_open_init env s0 g0 = (s2, g1)" "tcp_open_tags uri s2 = s"
    and resolved: "tcp_open_resolve env s (uri_hostname uri) (uri_port uri) (dns_dictionary g1)
           = Some (hit, 0, Some cs, evs0, d1)"
    and mode: "listen s \<noteq> 1" "listen s \<noteq> 2"
    and cands: "cs \<noteq> []" "\<forall>i < length cs - 1. candidate_fails (attempt env i)"
  shows "(candidate_connects (attempt env (length cs - 1)) \<longrightarrow>
           tcp_open env s0 h0 uri g0
             = Inr (Opened, s\<lparr>fd := socket_ret (attempt env (length cs - 1))\<rparr>,
                    (if 0 \<le> rw_timeout s then h0\<lparr>rw_timeout_h := rw_timeout s\<rparr> else h0)
                      \<lparr>is_streamed := 1\<rparr>,
                    g1\<lparr>dns_dictionary :=
                         (if dns_cache s \<noteq> 0 \<and> \<not> hit
                             \<and> control_ip (attempt env (length cs - 1)) \<noteq> uri_hostname uri
                             \<and> uri_hostname uri \<noteq> []
                          then set_dns_cache (set_time env) (set_alloc env) (uri_hostname uri)
                                 [fix_port (uri_port uri) (last cs)] d1
                          else d1)\<rparr>,
                    evs0 @ failover_trace s (uri_port uri) (attempt env) 0 cs))
       \<and> (candidate_fails (attempt env (length cs - 1)) \<longrightarrow>
           tcp_open env s0 h0 uri g0
             = Inr (Failed (fail_code (attempt env (length cs - 1))), s,
                    (if 0 \<le> rw_timeout s then h0\<lparr>rw_timeout_h := rw_timeout s\<rparr> else h0),
                    g1\<lparr>dns_dictionary :=
                         (if dns_cache s \<noteq> 0 \<and> hit
                          then fail1_invalidate (uri_hostname uri) d1 else d1)\<rparr>,
                    evs0 @ failover_trace s (uri_port uri) (attempt env) 0 cs
                      @ (if 0 \<le> socket_ret (attempt env (length cs - 1))
                         then [Closesocket (socket_ret (attempt env (length cs - 1)))]
                         else [])))
       \<and> socket_events (failover_trace s (uri_port uri) (attempt env) 0 cs)
           = failover_sockets (attempt env) 0 cs"
proof -
  have fails: "\<forall>i < length cs - 1. candidate_fails (attempt env (0 + i))"
    using cands(2) by simp
  note loop = restart_failover_trace [OF mode cands(1) fails,
      of "uri_port uri" hit "uri_hostname uri" d1, simplified]
  note top = tcp_open_resolved [OF uri init resolved, of h0]
  show ?thesis
    using loop by (auto simp: top socket_events_failover_trace)
qed

text \<open>The example environment: the resolution and the start of \<open>tcp_open\<close>, evaluated.\<close>

lemma ex_resolve_fresh:
  "tcp_open_resolve ex_env (ex_ctx\<lparr>open_timeout := 15000000\<rparr>) ''example.com'' 80 Map.empty
     = Some (False, 0, Some [ex_ai4, ex_ai6],
             [Getaddrinfo (Some ''example.com'') (Some ''80'')
                (Some (tcp_open_hints (ex_ctx\<lparr>open_timeout := 15000000\<rparr>)))],
             Map.empty)"
  by (simp add: tcp_open_resolve_def get_dns_cache_def av_dict_get_def ex_env_def ex_ctx_def
      ijk_tcp_getaddrinfo_nonblock_def ex_resolver_def ex_gai_def word_sle_eq word_sless_alt
      decimal.simps Let_def)

lemma ex_setup:
  "tcp_open_init ex_env ex_ctx (ex_globals d) = (ex_ctx\<lparr>open_timeout := 15000000\<rparr>, ex_globals d)"
  "tcp_open_tags ex_uri s = s"
  by (simp_all add: tcp_open_init_def tcp_open_tags_def ex_ctx_def ex_globals_def ex_uri_def Let_def)


lemma ex_resolve_fresh_refused:
  "tcp_open_resolve (ex_env\<lparr>attempt := ex_all_refused\<rparr>) (ex_ctx\<lparr>open_timeout := 15000000\<rparr>)
       ''example.com'' 80 Map.empty
     = Some (False, 0, Some [ex_ai4, ex_ai6],
             [Getaddrinfo (Some ''example.com'') (Some ''80'')
                (Some (tcp_open_hints (ex_ctx\<lparr>open_timeout := 15000000\<rparr>)))],
             Map.empty)"
  by (simp add: tcp_open_resolve_def get_dns_cache_def av_dict_get_def ex_env_def ex_ctx_def
      ijk_tcp_getaddrinfo_nonblock_def ex_resolver_def ex_gai_def word_sle_eq word_sless_alt
      decimal.simps Let_def)

text \<open>
  Two candidates, the first refused: two sockets, the first closed before the second is
  created, success on the second, which is stored in the cache. Both refused: the call
  fails with the last error.
\<close>

theorem C2_failover_witness:
  "tcp_open ex_env ex_ctx ex_h ex_uri (ex_globals Map.empty)
     = Inr (Opened, ex_ctx\<lparr>open_timeout := 15000000, fd := 4\<rparr>, ex_h\<lparr>is_streamed := 1\<rparr>,
            ex_globals (set_dns_cache 9 all_ok ''example.com'' [ex_ai6] Map.empty),
            [Getaddrinfo (Some ''example.com'') (Some ''80'')
               (Some (tcp_open_hints (ex_ctx\<lparr>open_timeout := 15000000\<rparr>))),
             Socket 2 1 6, WillOpen, Connect 3 ex_ai4 15000 True, DidOpen (- 61) 3,
             Closesocket 3,
             Socket 30 1 6, WillOpen, Connect 4 ex_ai6 15000 False, DidOpen 0 4])
   \<and> tcp_open (ex_env\<lparr>attempt := ex_all_refused\<rparr>) ex_ctx ex_h ex_uri (ex_globals Map.empty)
     = Inr (Failed (- 61), ex_ctx\<lparr>open_timeout := 15000000\<rparr>, ex_h, ex_globals Map.empty,
            [Getaddrinfo (Some ''example.com'') (Some ''80'')
               (Some (tcp_open_hints (ex_ctx\<lparr>open_timeout := 15000000\<rparr>))),
             Socket 2 1 6, WillOpen, Connect 3 ex_ai4 15000 True, DidOpen (- 61) 3,
             Closesocket 3,
             Socket 30 1 6, WillOpen, Connect 3 ex_ai6 15000 False, DidOpen (- 61) 3,
             Closesocket 3])"
proof -
  have uri: "uri_proto ex_uri = ''tcp''" "0 < uri_port ex_uri" "uri_port ex_uri < 65536"
    by (simp_all add: ex_uri_def)
  have mode: "listen (ex_ctx\<lparr>open_timeout := 15000000\<rparr>) \<noteq> 1"
    "listen (ex_ctx\<lparr>open_timeout := 15000000\<rparr>) \<noteq> 2"
    by (simp_all add: ex_ctx_def)
  have init: "tcp_open_init ex_env ex_ctx (ex_globals Map.empty)
      = (ex_ctx\<lparr>open_timeout := 15000000\<rparr>, ex_globals Map.empty)"
    "tcp_open_init (ex_env\<lparr>attempt := ex_all_refused\<rparr>) ex_ctx (ex_globals Map.empty)
      = (ex_ctx\<lparr>open_timeout := 15000000\<rparr>, ex_globals Map.empty)"
    by (simp_all add: tcp_open_init_def ex_ctx_def ex_globals_def Let_def)
  have tags: "tcp_open_tags ex_uri (ex_ctx\<lparr>open_timeout := 15000000\<rparr>)
      = ex_ctx\<lparr>open_timeout := 15000000\<rparr>"
    by (rule ex_setup)
  have res: "tcp_open_resolve ex_env (ex_ctx\<lparr>open_timeout := 15000000\<rparr>)
       (uri_hostname ex_uri) (uri_port ex_uri) (dns_dictionary (ex_globals Map.empty))
     = Some (False, 0, Some [ex_ai4, ex_ai6],
             [Getaddrinfo (Some ''example.com'') (Some ''80'')
                (Some (tcp_open_hints (ex_ctx\<lparr>open_timeout := 15000000\<rparr>)))],
             Map.empty)"
    "tcp_open_resolve (ex_env\<lparr>attempt := ex_all_refused\<rparr>) (ex_ctx\<lparr>open_timeout := 15000000\<rparr>)
       (uri_hostname ex_uri) (uri_port ex_uri) (dns_dictionary (ex_globals Map.empty))
     = Some (False, 0, Some [ex_ai4, ex_ai6],
             [Getaddrinfo (Some ''example.com'') (Some ''80'')
                (Some (tcp_open_hints (ex_ctx\<lparr>open_timeout := 15000000\<rparr>)))],
             Map.empty)"
    using ex_resolve_fresh ex_resolve_fresh_refused
    by (simp_all add: ex_uri_def ex_globals_def)
  have cands: "[ex_ai4, ex_ai6] \<noteq> []"
    "\<forall>i < length [ex_ai4, ex_ai6] - 1. candidate_fails (attempt ex_env i)"
    "\<forall>i < length [ex_ai4, ex_ai6] - 1.
        candidate_fails (attempt (ex_env\<lparr>attempt := ex_all_refused\<rparr>) i)"
    by (simp_all add: ex_env_def ex_attempts_def ex_all_refused_def ex_io_refused_def
        candidate_fails_def AVERROR_EXIT_def)
  have last: "candidate_connects (attempt ex_env (length [ex_ai4, ex_ai6] - 1))"
    "candidate_fails (attempt (ex_env\<lparr>attempt := ex_all_refused\<rparr>) (length [ex_ai4, ex_ai6] - 1))"
    by (simp_all add: ex_env_def ex_attempts_def ex_all_refused_def ex_io_refused_def
        ex_io_ok_def candidate_fails_def candidate_connects_def AVERROR_EXIT_def)
  from C2_failover [OF uri init(1) tags res(1) mode cands(1,2), of ex_h] last(1)
  have one: "tcp_open ex_env ex_ctx ex_h ex_uri (ex_globals Map.empty)
     = Inr (Opened, ex_ctx\<lparr>open_timeout := 15000000, fd := 4\<rparr>, ex_h\<lparr>is_streamed := 1\<rparr>,
            ex_globals (set_dns_cache 9 all_ok ''example.com'' [ex_ai6] Map.empty),
            [Getaddrinfo (Some ''example.com'') (Some ''80'')
               (Some (tcp_open_hints (ex_ctx\<lparr>open_timeout := 15000000\<rparr>))),
             Socket 2 1 6, WillOpen, Connect 3 ex_ai4 15000 True, DidOpen (- 61) 3,
             Closesocket 3,
             Socket 30 1 6, WillOpen, Connect 4 ex_ai6 15000 False, DidOpen 0 4])"
    by (simp add: ex_env_def ex_attempts_def ex_io_ok_def ex_io_refused_def ex_ai4_def
        ex_ai6_def ex_uri_def ex_ctx_def ex_globals_def ex_h_def sockopts_def c_div_def
        fix_port_def AF_INET6_def ex_addr6_def)
  from C2_failover [OF uri init(2) tags res(2) mode cands(1,3), of ex_h] last(2)
  have two: "tcp_open (ex_env\<lparr>attempt := ex_all_refused\<rparr>) ex_ctx ex_h ex_uri
                     (ex_globals Map.empty)
     = Inr (Failed (- 61), ex_ctx\<lparr>open_timeout := 15000000\<rparr>, ex_h, ex_globals Map.empty,
            [Getaddrinfo (Some ''example.com'') (Some ''80'')
               (Some (tcp_open_hints (ex_ctx\<lparr>open_timeout := 15000000\<rparr>))),
             Socket 2 1 6, WillOpen, Connect 3 ex_ai4 15000 True, DidOpen (- 61) 3,
             Closesocket 3,
             Socket 30 1 6, WillOpen, Connect 3 ex_ai6 15000 False, DidOpen (- 61) 3,
             Closesocket 3])"
    by (simp add: ex_env_def ex_all_refused_def ex_io_refused_def ex_ai4_def ex_ai6_def
        fail_code_def ex_uri_def ex_ctx_def ex_globals_def ex_h_def sockopts_def c_div_def
        fix_port_def AF_INET6_def ex_addr6_def)
  from one two show ?thesis by blast
qed

text \<open>The example environment with a did-connect hook that answers 1 to the first refusal.\<close>

lemma ex_resolve_abort:
  "tcp_open_resolve (ex_env\<lparr>attempt := ex_abort_first\<rparr>) (ex_ctx\<lparr>open_timeout := 15000000\<rparr>)
       ''example.com'' 80 Map.empty
     = Some (False, 0, Some [ex_ai4, ex_ai6],
             [Getaddrinfo (Some ''example.com'') (Some ''80'')
                (Some (tcp_open_hints (ex_ctx\<lparr>open_timeout := 15000000\<rparr>)))],
             Map.empty)"
  by (simp add: tcp_open_resolve_def get_dns_cache_def av_dict_get_def ex_env_def ex_ctx_def
      ijk_tcp_getaddrinfo_nonblock_def ex_resolver_def ex_gai_def word_sle_eq word_sless_alt
      decimal.simps Let_def)

text \<open>
  Claim C2 as stated fails: of two candidates only the last is connectable (the connect
  of the first is refused, the second would connect), the did-connect hook answers 1 to
  the refusal, and the call fails with the refusal's code after a single socket; the
  second candidate is never tried.
\<close>

theorem C2_counterexample:
  "connect_ret (ex_abort_first 0) < 0 \<and> candidate_connects (ex_abort_first 1)
   \<and> tcp_open (ex_env\<lparr>attempt := ex_abort_first\<rparr>) ex_ctx ex_h ex_uri (ex_globals Map.empty)
       = Inr (Failed (- 61), ex_ctx\<lparr>open_timeout := 15000000\<rparr>, ex_h, ex_globals Map.empty,
              [Getaddrinfo (Some ''example.com'') (Some ''80'')
                 (Some (tcp_open_hints (ex_ctx\<lparr>open_timeout := 15000000\<rparr>))),
               Socket 2 1 6, WillOpen, Connect 3 ex_ai4 15000 True, DidOpen (- 61) 3,
               Closesocket 3])"
proof -
  have uri: "uri_proto ex_uri = ''tcp''" "0 < uri_port ex_uri" "uri_port ex_uri < 65536"
    by (simp_all add: ex_uri_def)
  have init: "tcp_open_init (ex_env\<lparr>attempt := ex_abort_first\<rparr>) ex_ctx (ex_globals Map.empty)
      = (ex_ctx\<lparr>open_timeout := 15000000\<rparr>, ex_globals Map.empty)"
    by (simp add: tcp_open_init_def ex_ctx_def ex_globals_def Let_def)
  have tags: "tcp_open_tags ex_uri (ex_ctx\<lparr>open_timeout := 15000000\<rparr>)
      = ex_ctx\<lparr>open_timeout := 15000000\<rparr>"
    by (rule ex_setup)
  have res: "tcp_open_resolve (ex_env\<lparr>attempt := ex_abort_first\<rparr>)
       (ex_ctx\<lparr>open_timeout := 15000000\<rparr>)
       (uri_hostname ex_uri) (uri_port ex_uri) (dns_dictionary (ex_globals Map.empty))
     = Some (False, 0, Some [ex_ai4, ex_ai6],
             [Getaddrinfo (Some ''example.com'') (Some ''80'')
                (Some (tcp_open_hints (ex_ctx\<lparr>open_timeout := 15000000\<rparr>)))],
             Map.empty)"
    using ex_resolve_abort by (simp add: ex_uri_def ex_globals_def)
  have answers: "connect_ret (ex_abort_first 0) < 0" "candidate_connects (ex_abort_first 1)"
    by (simp_all add: candidate_connects_def ex_abort_first_def ex_io_refused_abort_def
        ex_io_refused_def ex_io_ok_def)
  have loop: "tcp_open_restart (ex_env\<lparr>attempt := ex_abort_first\<rparr>)
        (ex_ctx\<lparr>open_timeout := 15000000\<rparr>) 80 False ''example.com'' 0 [ex_ai4, ex_ai6]
        Map.empty
      = (AtFail1 (- 61) 3,
         [Socket 2 1 6, WillOpen, Connect 3 ex_ai4 15000 True, DidOpen (- 61) 3], Map.empty)"
    by (simp add: tcp_open_attempt_def ex_env_def ex_abort_first_def ex_io_refused_abort_def
        ex_io_refused_def ex_ctx_def ex_ai4_def fix_port_def AF_INET6_def sockopts_def
        c_div_def Let_def)
  show ?thesis
    using tcp_open_resolved [OF uri init tags res, of ex_h] loop answers
    by (simp add: ex_uri_def ex_ctx_def ex_h_def ex_globals_def)
qed

text \<open>One pass on a candidate that the observer vetoes jumps to \<open>fail1\<close>.\<close>

lemma attempt_vetoed:
  assumes "candidate_vetoed io" "listen s \<noteq> 1" "listen s \<noteq> 2"
  shows "\<exists>evs. tcp_open_attempt env s port hit hb io a rest d
                 = (GotoFail1 (did_open_ret io) (socket_ret io), evs, d)
               \<and> socket_events evs = [Socket (ai_family a) (ai_socktype a) (ai_protocol a)]"
  using assms
  by (auto simp: candidate_vetoed_def tcp_open_attempt_def Let_def
      socket_events_append socket_events_sockopts fix_port_fields)

text \<open>The spec's failover on a candidate that has a successor.\<close>

lemma failover_sockets_Cons:
  "ys \<noteq> [] \<Longrightarrow> failover_sockets io k (c # ys) =
     Socket (ai_family c) (ai_socktype c) (ai_protocol c)
       # (if 0 \<le> socket_ret (io k) then [Closesocket (socket_ret (io k))] else [])
       @ failover_sockets io (Suc k) ys"
  by (cases ys) simp_all

text \<open>The loop passes over a prefix of failing candidates.\<close>

lemma restart_prefix:
  assumes mode: "listen s \<noteq> 1" "listen s \<noteq> 2"
  shows "(\<forall>i < length pre. candidate_fails (attempt env (k + i))) \<Longrightarrow>
     \<exists>evs. socket_events evs @ [Socket (ai_family c) (ai_socktype c) (ai_protocol c)]
             = failover_sockets (attempt env) k (pre @ [c])
         \<and> tcp_open_restart env s port hit hb k (pre @ c # rest) d
             = (case tcp_open_restart env s port hit hb (k + length pre) (c # rest) d of
                  (x, evs2, d2) \<Rightarrow> (x, evs @ evs2, d2))"
proof (induction pre arbitrary: k)
  case Nil
  show ?case by (rule exI [of _ "[]"]) (simp split: prod.splits)
next
  case (Cons p pre)
  have first: "candidate_fails (attempt env k)"
    using Cons.prems by (auto dest: spec [of _ 0])
  from attempt_fails [OF first mode, of env port hit hb p "pre @ c # rest" d] obtain evs1 where
    pass: "tcp_open_attempt env s port hit hb (attempt env k) p (pre @ c # rest) d
             = (GotoFail (fail_code (attempt env k)) (socket_ret (attempt env k)), evs1, d)"
    and sock: "socket_events evs1 = [Socket (ai_family p) (ai_socktype p) (ai_protocol p)]"
    by blast
  have later: "\<forall>i < length pre. candidate_fails (attempt env (Suc k + i))"
  proof (intro allI impI)
    fix i assume "i < length pre"
    then have "Suc i < length (p # pre)" by simp
    with Cons.prems have "candidate_fails (attempt env (k + Suc i))" by blast
    then show "candidate_fails (attempt env (Suc k + i))" by simp
  qed
  from Cons.IH [OF later] obtain evs where
    tr: "socket_events evs @ [Socket (ai_family c) (ai_socktype c) (ai_protocol c)]
           = failover_sockets (attempt env) (Suc k) (pre @ [c])"
    and run: "tcp_open_restart env s port hit hb (Suc k) (pre @ c # rest) d
             = (case tcp_open_restart env s port hit hb (Suc k + length pre) (c # rest) d of
                  (x, evs2, d2) \<Rightarrow> (x, evs @ evs2, d2))"
    by blast
  let ?close = "(if 0 \<le> socket_ret (attempt env k)
                 then [Closesocket (socket_ret (attempt env k))] else [])"
  have "failover_sockets (attempt env) k (p # pre @ [c])
      = Socket (ai_family p) (ai_socktype p) (ai_protocol p) # ?close
          @ failover_sockets (attempt env) (Suc k) (pre @ [c])"
    by (rule failover_sockets_Cons) simp
  then have "socket_events (evs1 @ ?close @ evs)
        @ [Socket (ai_family c) (ai_socktype c) (ai_protocol c)]
      = failover_sockets (attempt env) k ((p # pre) @ [c])"
    using sock tr by (simp add: socket_events_append)
  moreover have "tcp_open_restart env s port hit hb k ((p # pre) @ c # rest) d
      = (case tcp_open_restart env s port hit hb (k + length (p # pre)) (c # rest) d of
           (x, evs2, d2) \<Rightarrow> (x, (evs1 @ ?close @ evs) @ evs2, d2))"
    using pass run by (simp split: prod.splits)
  ultimately show ?case by blast
qed


text \<open>
  Claim C3, as amended. In the default connect mode, when the candidates before it have
  failed and the connect of a candidate succeeds but the observer's did-connect hook
  returns non-zero, \<open>tcp_open\<close> aborts the whole operation: it returns the hook's value,
  the vetoed candidate's socket is the last one created and is closed, and no socket is
  created for any candidate after it, whether or not candidates remain.
\<close>

theorem C3_veto_aborts:
  assumes uri: "uri_proto uri = ''tcp''" "0 < uri_port uri" "uri_port uri < 65536"
    and init: "tcp_open_init env s0 g0 = (s2, g1)" "tcp_open_tags uri s2 = s"
    and resolved: "tcp_open_resolve env s (uri_hostname uri) (uri_port uri) (dns_dictionary g1)
           = Some (hit, 0, Some (pre @ c # rest), evs0, d1)"
    and mode: "listen s \<noteq> 1" "listen s \<noteq> 2"
    and before: "\<forall>i < length pre. candidate_fails (attempt env i)"
    and veto: "candidate_vetoed (attempt env (length pre))"
  shows "\<exists>h' g' evs. tcp_open env s0 h0 uri g0
            = Inr (Failed (did_open_ret (attempt env (length pre))), s, h', g', evs0 @ evs)
          \<and> socket_events evs
              = failover_sockets (attempt env) 0 (pre @ [c])
                @ [Closesocket (socket_ret (attempt env (length pre)))]"
proof -
  have fails: "\<forall>i < length pre. candidate_fails (attempt env (0 + i))"
    using before by simp
  from restart_prefix [OF mode fails, of c "uri_port uri" hit "uri_hostname uri" rest d1]
  obtain evs where
    tr: "socket_events evs @ [Socket (ai_family c) (ai_socktype c) (ai_protocol c)]
           = failover_sockets (attempt env) 0 (pre @ [c])"
    and run: "tcp_open_restart env s (uri_port uri) hit (uri_hostname uri) 0 (pre @ c # rest) d1
             = (case tcp_open_restart env s (uri_port uri) hit (uri_hostname uri)
                       (0 + length pre) (c # rest) d1 of
                  (x, evs2, d2) \<Rightarrow> (x, evs @ evs2, d2))"
    by blast
  from attempt_vetoed [OF veto mode, of env "uri_port uri" hit "uri_hostname uri" c rest d1]
  obtain evs1 where
    pass: "tcp_open_attempt env s (uri_port uri) hit (uri_hostname uri)
             (attempt env (length pre)) c rest d1
           = (GotoFail1 (did_open_ret (attempt env (length pre)))
                (socket_ret (attempt env (length pre))), evs1, d1)"
    and sock: "socket_events evs1 = [Socket (ai_family c) (ai_socktype c) (ai_protocol c)]"
    by blast
  have fd: "0 \<le> socket_ret (attempt env (length pre))"
    using veto by (simp add: candidate_vetoed_def)
  have loop: "tcp_open_restart env s (uri_port uri) hit (uri_hostname uri) 0 (pre @ c # rest) d1
      = (AtFail1 (did_open_ret (attempt env (length pre)))
           (socket_ret (attempt env (length pre))), evs @ evs1, d1)"
    using run pass by simp
  have "socket_events ((evs @ evs1) @ [Closesocket (socket_ret (attempt env (length pre)))])
      = failover_sockets (attempt env) 0 (pre @ [c])
        @ [Closesocket (socket_ret (attempt env (length pre)))]"
    using tr sock by (simp add: socket_events_append)
  then show ?thesis
    using tcp_open_resolved [OF uri init resolved, of h0] loop fd by simp
qed

text \<open>The example environment with a veto on the first pass.\<close>

lemma ex_resolve_veto:
  "tcp_open_resolve (ex_env\<lparr>attempt := ex_veto_first\<rparr>) (ex_ctx\<lparr>open_timeout := 15000000\<rparr>)
       ''example.com'' 80 Map.empty
     = Some (False, 0, Some [ex_ai4, ex_ai6],
             [Getaddrinfo (Some ''example.com'') (Some ''80'')
                (Some (tcp_open_hints (ex_ctx\<lparr>open_timeout := 15000000\<rparr>)))],
             Map.empty)"
  by (simp add: tcp_open_resolve_def get_dns_cache_def av_dict_get_def ex_env_def ex_ctx_def
      ijk_tcp_getaddrinfo_nonblock_def ex_resolver_def ex_gai_def word_sle_eq word_sless_alt
      decimal.simps Let_def)

text \<open>A veto on the first of two candidates: one socket, closed, and the call fails.\<close>

theorem C3_veto_aborts_witness:
  "\<exists>h' g' evs. tcp_open (ex_env\<lparr>attempt := ex_veto_first\<rparr>) ex_ctx ex_h ex_uri
                   (ex_globals Map.empty)
        = Inr (Failed (- 1), ex_ctx\<lparr>open_timeout := 15000000\<rparr>, h', g',
               [Getaddrinfo (Some ''example.com'') (Some ''80'')
                  (Some (tcp_open_hints (ex_ctx\<lparr>open_timeout := 15000000\<rparr>)))] @ evs)
      \<and> socket_events evs = [Socket 2 1 6, Closesocket 3]"
proof -
  have uri: "uri_proto ex_uri = ''tcp''" "0 < uri_port ex_uri" "uri_port ex_uri < 65536"
    by (simp_all add: ex_uri_def)
  have mode: "listen (ex_ctx\<lparr>open_timeout := 15000000\<rparr>) \<noteq> 1"
    "listen (ex_ctx\<lparr>open_timeout := 15000000\<rparr>) \<noteq> 2"
    by (simp_all add: ex_ctx_def)
  have init: "tcp_open_init (ex_env\<lparr>attempt := ex_veto_first\<rparr>) ex_ctx (ex_globals Map.empty)
      = (ex_ctx\<lparr>open_timeout := 15000000\<rparr>, ex_globals Map.empty)"
    by (simp add: tcp_open_init_def ex_ctx_def ex_globals_def Let_def)
  have tags: "tcp_open_tags ex_uri (ex_ctx\<lparr>open_timeout := 15000000\<rparr>)
      = ex_ctx\<lparr>open_timeout := 15000000\<rparr>"
    by (rule ex_setup)
  have res: "tcp_open_resolve (ex_env\<lparr>attempt := ex_veto_first\<rparr>)
       (ex_ctx\<lparr>open_timeout := 15000000\<rparr>)
       (uri_hostname ex_uri) (uri_port ex_uri) (dns_dictionary (ex_globals Map.empty))
     = Some (False, 0, Some ([] @ ex_ai4 # [ex_ai6]),
             [Getaddrinfo (Some ''example.com'') (Some ''80'')
                (Some (tcp_open_hints (ex_ctx\<lparr>open_timeout := 15000000\<rparr>)))],
             Map.empty)"
    using ex_resolve_veto by (simp add: ex_uri_def ex_globals_def)
  have before: "\<forall>i < length ([] :: addrinfo list).
      candidate_fails (attempt (ex_env\<lparr>attempt := ex_veto_first\<rparr>) i)"
    by simp
  have veto: "candidate_vetoed (attempt (ex_env\<lparr>attempt := ex_veto_first\<rparr>)
      (length ([] :: addrinfo list)))"
    by (simp add: candidate_vetoed_def ex_veto_first_def ex_io_veto_def)
  from C3_veto_aborts [OF uri init tags res mode before veto, of ex_h]
  show ?thesis
    by (simp add: ex_veto_first_def ex_io_veto_def ex_ai4_def)
qed

text \<open>
  Claim C3 as stated fails: the first of two candidates connects and is vetoed, the second
  would connect, and the call fails with the hook's value after a trace that holds a
  single socket; the second candidate is never tried.
\<close>

theorem C3_counterexample:
  "candidate_vetoed (ex_veto_first 0) \<and> candidate_connects (ex_veto_first 1)
   \<and> tcp_open (ex_env\<lparr>attempt := ex_veto_first\<rparr>) ex_ctx ex_h ex_uri (ex_globals Map.empty)
       = Inr (Failed (- 1), ex_ctx\<lparr>open_timeout := 15000000\<rparr>, ex_h, ex_globals Map.empty,
              [Getaddrinfo (Some ''example.com'') (Some ''80'')
                 (Some (tcp_open_hints (ex_ctx\<lparr>open_timeout := 15000000\<rparr>))),
               Socket 2 1 6, WillOpen, Connect 3 ex_ai4 15000 True, DidOpen 0 3,
               Closesocket 3])"
proof -
  have uri: "uri_proto ex_uri = ''tcp''" "0 < uri_port ex_uri" "uri_port ex_uri < 65536"
    by (simp_all add: ex_uri_def)
  have init: "tcp_open_init (ex_env\<lparr>attempt := ex_veto_first\<rparr>) ex_ctx (ex_globals Map.empty)
      = (ex_ctx\<lparr>open_timeout := 15000000\<rparr>, ex_globals Map.empty)"
    by (simp add: tcp_open_init_def ex_ctx_def ex_globals_def Let_def)
  have tags: "tcp_open_tags ex_uri (ex_ctx\<lparr>open_timeout := 15000000\<rparr>)
      = ex_ctx\<lparr>open_timeout := 15000000\<rparr>"
    by (rule ex_setup)
  have res: "tcp_open_resolve (ex_env\<lparr>attempt := ex_veto_first\<rparr>)
       (ex_ctx\<lparr>open_timeout := 15000000\<rparr>)
       (uri_hostname ex_uri) (uri_port ex_uri) (dns_dictionary (ex_globals Map.empty))
     = Some (False, 0, Some [ex_ai4, ex_ai6],
             [Getaddrinfo (Some ''example.com'') (Some ''80'')
                (Some (tcp_open_hints (ex_ctx\<lparr>open_timeout := 15000000\<rparr>)))],
             Map.empty)"
    using ex_resolve_veto by (simp add: ex_uri_def ex_globals_def)
  have hooks: "candidate_vetoed (ex_veto_first 0)" "candidate_connects (ex_veto_first 1)"
    by (simp_all add: candidate_vetoed_def candidate_connects_def ex_veto_first_def
        ex_io_veto_def ex_io_ok_def)
  have loop: "tcp_open_restart (ex_env\<lparr>attempt := ex_veto_first\<rparr>)
        (ex_ctx\<lparr>open_timeout := 15000000\<rparr>) 80 False ''example.com'' 0 [ex_ai4, ex_ai6]
        Map.empty
      = (AtFail1 (- 1) 3,
         [Socket 2 1 6, WillOpen, Connect 3 ex_ai4 15000 True, DidOpen 0 3], Map.empty)"
    by (simp add: tcp_open_attempt_def ex_env_def ex_veto_first_def ex_io_veto_def
        ex_ctx_def ex_ai4_def fix_port_def AF_INET6_def sockopts_def c_div_def Let_def)
  show ?thesis
    using tcp_open_resolved [OF uri init tags res, of ex_h] loop hooks
    by (simp add: ex_uri_def ex_ctx_def ex_h_def ex_globals_def)
qed

section \<open>Properties of a connection through the cache\<close>

text \<open>A non-zero return of \<open>get_dns_cache\<close> is a hit.\<close>

lemma get_dns_cache_nonzero:
  assumes "fst (get_dns_cache s cur_time malloc_ok hostname d) \<noteq> 0"
  shows "\<exists>l. get_dns_cache s cur_time malloc_ok hostname d = (1, Some l, d)"
  using assms
  by (auto simp: get_dns_cache_def av_dict_get_def
      split: if_splits option.splits list.splits)

text \<open>What \<open>tcp_open\<close> holds after a cache hit.\<close>

lemma resolve_hit:
  assumes "tcp_open_resolve env s hostname port d = Some (True, r, ai, evs0, d1)"
  shows "r = 0 \<and> evs0 = [] \<and> d1 = d \<and> dns_cache s \<noteq> 0
       \<and> (\<exists>e a rest bytes. d hostname = Some (Some e) \<and> cache_res e = a # rest
             \<and> ai_addr a = Some bytes \<and> ai = Some [private_copy a bytes])"
proof -
  let ?lookup = "if dns_cache s \<noteq> 0
                 then get_dns_cache s (get_time env) (get_alloc env) hostname d
                 else (0, None, d)"
  have hit: "fst ?lookup \<noteq> 0"
    using assms by (auto simp: tcp_open_resolve_def Let_def split: if_splits option.splits)
  then have on: "dns_cache s \<noteq> 0" by (auto split: if_splits)
  with hit obtain l where
    l: "get_dns_cache s (get_time env) (get_alloc env) hostname d = (1, Some l, d)"
    using get_dns_cache_nonzero [of s "get_time env" "get_alloc env" hostname d] by auto
  from assms on l have "r = 0" "evs0 = []" "d1 = d" "ai = Some l"
    by (simp_all add: tcp_open_resolve_def Let_def)
  with get_dns_cache_hit [OF l] on show ?thesis by simp
qed

text \<open>Every pass from \<open>restart\<close> creates one socket and, after a cache hit, leaves the cache alone.\<close>

lemma attempt_sockets:
  assumes "tcp_open_attempt env s port hit hb io a rest d = (x, evs, d')"
  shows "socket_events evs = [Socket (ai_family a) (ai_socktype a) (ai_protocol a)]"
    and "hit \<Longrightarrow> d' = d"
    and "x = GotoFail r fd1 \<or> x = GotoFail1 r fd1 \<Longrightarrow> d' = d \<and> fd1 = socket_ret io
          \<and> r \<in> {neterrno io, listen_ret io, listen_bind_ret io, will_open_ret io,
                   connect_ret io, did_open_ret io}"
  using assms
  by (auto simp: tcp_open_attempt_def Let_def socket_events_append socket_events_sockopts
      fix_port_fields split: if_splits)

text \<open>The loop on a one-node chain is one pass.\<close>

lemma restart_single:
  "tcp_open_restart env s port hit hb k [c] d =
     (case tcp_open_attempt env s port hit hb (attempt env k) c [] d of
        (Done fd1, evs, d1) \<Rightarrow> (Connected fd1, evs, d1)
      | (GotoFail r fd1, evs, d1) \<Rightarrow> (AtFail1 r fd1, evs, d1)
      | (GotoFail1 r fd1, evs, d1) \<Rightarrow> (AtFail1 r fd1, evs, d1))"
  by (simp split: prod.splits attempt_exit.splits)


text \<open>A hit of \<open>get_dns_cache\<close> with the cache switched on is a hit of \<open>tcp_open\<close>.\<close>

lemma resolve_of_hit:
  assumes "dns_cache s \<noteq> 0"
    and "get_dns_cache s (get_time env) (get_alloc env) hostname d = (r, Some l, d1)"
  shows "tcp_open_resolve env s hostname port d = Some (True, 0, Some l, [], d)"
  using assms get_dns_cache_hit [OF assms(2)]
  by (simp add: tcp_open_resolve_def Let_def)

text \<open>\<open>tcp_open\<close> after a cache hit: one pass on the one cached candidate.\<close>

lemma tcp_open_cached:
  assumes uri: "uri_proto uri = ''tcp''" "0 < uri_port uri" "uri_port uri < 65536"
    and init: "tcp_open_init env s0 g0 = (s2, g1)" "tcp_open_tags uri s2 = s"
    and cache: "dns_cache s \<noteq> 0"
    and hit: "get_dns_cache s (get_time env) (get_alloc env) (uri_hostname uri)
                (dns_dictionary g1) = (r, Some l, d1)"
  shows "\<exists>c x evs. l = [c] \<and> ai_canonname c = None
      \<and> (\<exists>e. dns_dictionary g1 (uri_hostname uri) = Some (Some e))
      \<and> tcp_open_attempt env s (uri_port uri) True (uri_hostname uri) (attempt env 0) c []
            (dns_dictionary g1) = (x, evs, dns_dictionary g1)
      \<and> socket_events evs = [Socket (ai_family c) (ai_socktype c) (ai_protocol c)]
      \<and> tcp_open env s0 h0 uri g0 =
          (case x of
             Done fd1 \<Rightarrow>
               Inr (Opened, s\<lparr>fd := fd1\<rparr>,
                    (if rw_timeout s \<ge> 0 then h0\<lparr>rw_timeout_h := rw_timeout s\<rparr> else h0)
                      \<lparr>is_streamed := 1\<rparr>,
                    g1, evs)
           | GotoFail r1 fd1 \<Rightarrow>
               Inr (Failed r1, s,
                    (if rw_timeout s \<ge> 0 then h0\<lparr>rw_timeout_h := rw_timeout s\<rparr> else h0),
                    g1\<lparr>dns_dictionary := (dns_dictionary g1)(uri_hostname uri \<mapsto> None)\<rparr>,
                    evs @ (if fd1 \<ge> 0 then [Closesocket fd1] else []))
           | GotoFail1 r1 fd1 \<Rightarrow>
               Inr (Failed r1, s,
                    (if rw_timeout s \<ge> 0 then h0\<lparr>rw_timeout_h := rw_timeout s\<rparr> else h0),
                    g1\<lparr>dns_dictionary := (dns_dictionary g1)(uri_hostname uri \<mapsto> None)\<rparr>,
                    evs @ (if fd1 \<ge> 0 then [Closesocket fd1] else [])))"
proof -
  from get_dns_cache_hit [OF hit] obtain e a rest bytes where
    live: "dns_dictionary g1 (uri_hostname uri) = Some (Some e)"
    and l: "l = [private_copy a bytes]" and same: "d1 = dns_dictionary g1"
    by blast
  let ?c = "private_copy a bytes"
  obtain x evs d' where
    pass: "tcp_open_attempt env s (uri_port uri) True (uri_hostname uri) (attempt env 0) ?c []
             (dns_dictionary g1) = (x, evs, d')"
    by (metis prod_cases3)
  have d': "d' = dns_dictionary g1" and sock:
    "socket_events evs = [Socket (ai_family ?c) (ai_socktype ?c) (ai_protocol ?c)]"
    using attempt_sockets(1,2) [OF pass] by simp_all
  have res: "tcp_open_resolve env s (uri_hostname uri) (uri_port uri) (dns_dictionary g1)
      = Some (True, 0, Some [?c], [], dns_dictionary g1)"
    using resolve_of_hit [OF cache hit] l by simp
  have inv: "fail1_invalidate (uri_hostname uri) (dns_dictionary g1)
      = (dns_dictionary g1)(uri_hostname uri \<mapsto> None)"
    using live by (simp add: fail1_invalidate_def av_dict_get_def av_dict_set_int_def)
  have same_g: "g1\<lparr>dns_dictionary := dns_dictionary g1\<rparr> = g1" by simp
  have "tcp_open env s0 h0 uri g0 =
          (case x of
             Done fd1 \<Rightarrow>
               Inr (Opened, s\<lparr>fd := fd1\<rparr>,
                    (if rw_timeout s \<ge> 0 then h0\<lparr>rw_timeout_h := rw_timeout s\<rparr> else h0)
                      \<lparr>is_streamed := 1\<rparr>,
                    g1, evs)
           | GotoFail r1 fd1 \<Rightarrow>
               Inr (Failed r1, s,
                    (if rw_timeout s \<ge> 0 then h0\<lparr>rw_timeout_h := rw_timeout s\<rparr> else h0),
                    g1\<lparr>dns_dictionary := (dns_dictionary g1)(uri_hostname uri \<mapsto> None)\<rparr>,
                    evs @ (if fd1 \<ge> 0 then [Closesocket fd1] else []))
           | GotoFail1 r1 fd1 \<Rightarrow>
               Inr (Failed r1, s,
                    (if rw_timeout s \<ge> 0 then h0\<lparr>rw_timeout_h := rw_timeout s\<rparr> else h0),
                    g1\<lparr>dns_dictionary := (dns_dictionary g1)(uri_hostname uri \<mapsto> None)\<rparr>,
                    evs @ (if fd1 \<ge> 0 then [Closesocket fd1] else [])))"
    unfolding tcp_open_resolved [OF uri init res, of h0] restart_single
    using pass d' cache inv same_g
    by (cases x) simp_all
  moreover have "ai_canonname ?c = None" by (simp add: private_copy_def)
  ultimately show ?thesis
    using l live pass d' sock by blast
qed


text \<open>One pass that does not succeed after a cache hit: its error code, and the cache untouched.\<close>

lemma attempt_not_succeeds:
  assumes "\<not> attempt_succeeds s io"
  shows "\<exists>evs. tcp_open_attempt env s port True hb io a rest d
                 = (GotoFail (attempt_error s io) (socket_ret io), evs, d)
             \<or> tcp_open_attempt env s port True hb io a rest d
                 = (GotoFail1 (attempt_error s io) (socket_ret io), evs, d)"
  using assms
  by (auto simp: attempt_succeeds_def attempt_error_def tcp_open_attempt_def Let_def
      split: if_splits)

text \<open>
  Claim C5. When the candidate of a \<open>tcp_open\<close> call came from a hit of the cache and the
  one attempt on it does not succeed (in any listen mode: no socket, a failed listen, bind
  or connect, or a refusal by a hook), the call returns the error code of the step that
  failed, and the dictionary it leaves differs from the one it found in the entry of that
  host name only, which now holds a null value: every later lookup of the name finds
  nothing. The code returned is that of the attempt, so the invalidation adds no error of
  its own.
\<close>

theorem C5_failure_invalidates:
  assumes uri: "uri_proto uri = ''tcp''" "0 < uri_port uri" "uri_port uri < 65536"
    and init: "tcp_open_init env s0 g0 = (s2, g1)" "tcp_open_tags uri s2 = s"
    and cache: "dns_cache s \<noteq> 0"
    and hit: "get_dns_cache s (get_time env) (get_alloc env) (uri_hostname uri)
                (dns_dictionary g1) = (r, Some l, d1)"
    and fails: "\<not> attempt_succeeds s (attempt env 0)"
  shows "(\<exists>evs. tcp_open env s0 h0 uri g0
            = Inr (Failed (attempt_error s (attempt env 0)), s,
                   (if 0 \<le> rw_timeout s then h0\<lparr>rw_timeout_h := rw_timeout s\<rparr> else h0),
                   g1\<lparr>dns_dictionary := (dns_dictionary g1)(uri_hostname uri \<mapsto> None)\<rparr>,
                   evs))
       \<and> get_dns_cache sx t m (uri_hostname uri)
             ((dns_dictionary g1)(uri_hostname uri \<mapsto> None))
           = (0, None, (dns_dictionary g1)(uri_hostname uri \<mapsto> None))"
proof -
  from tcp_open_cached [OF uri init cache hit, of h0] obtain c x evs1 where
    pass: "tcp_open_attempt env s (uri_port uri) True (uri_hostname uri) (attempt env 0) c []
            (dns_dictionary g1) = (x, evs1, dns_dictionary g1)"
    and run: "tcp_open env s0 h0 uri g0 =
          (case x of
             Done fd1 \<Rightarrow>
               Inr (Opened, s\<lparr>fd := fd1\<rparr>,
                    (if rw_timeout s \<ge> 0 then h0\<lparr>rw_timeout_h := rw_timeout s\<rparr> else h0)
                      \<lparr>is_streamed := 1\<rparr>,
                    g1, evs1)
           | GotoFail r1 fd1 \<Rightarrow>
               Inr (Failed r1, s,
                    (if rw_timeout s \<ge> 0 then h0\<lparr>rw_timeout_h := rw_timeout s\<rparr> else h0),
                    g1\<lparr>dns_dictionary := (dns_dictionary g1)(uri_hostname uri \<mapsto> None)\<rparr>,
                    evs1 @ (if fd1 \<ge> 0 then [Closesocket fd1] else []))
           | GotoFail1 r1 fd1 \<Rightarrow>
               Inr (Failed r1, s,
                    (if rw_timeout s \<ge> 0 then h0\<lparr>rw_timeout_h := rw_timeout s\<rparr> else h0),
                    g1\<lparr>dns_dictionary := (dns_dictionary g1)(uri_hostname uri \<mapsto> None)\<rparr>,
                    evs1 @ (if fd1 \<ge> 0 then [Closesocket fd1] else [])))"
    by blast
  from attempt_not_succeeds [OF fails, of env "uri_port uri" "uri_hostname uri" c "[]"
      "dns_dictionary g1"] pass
  have x: "x = GotoFail (attempt_error s (attempt env 0)) (socket_ret (attempt env 0))
      \<or> x = GotoFail1 (attempt_error s (attempt env 0)) (socket_ret (attempt env 0))"
    by auto
  have ret: "\<exists>evs. tcp_open env s0 h0 uri g0
            = Inr (Failed (attempt_error s (attempt env 0)), s,
                   (if 0 \<le> rw_timeout s then h0\<lparr>rw_timeout_h := rw_timeout s\<rparr> else h0),
                   g1\<lparr>dns_dictionary := (dns_dictionary g1)(uri_hostname uri \<mapsto> None)\<rparr>,
                   evs)"
    using x run by auto
  have "get_dns_cache sx t m (uri_hostname uri)
             ((dns_dictionary g1)(uri_hostname uri \<mapsto> None))
           = (0, None, (dns_dictionary g1)(uri_hostname uri \<mapsto> None))"
    by (simp add: get_dns_cache_def av_dict_get_def)
  with ret show ?thesis by blast
qed

text \<open>The example: \<open>example.com\<close> is cached and its address refuses the connection.\<close>

lemma ex_cached_hit:
  "get_dns_cache (ex_ctx\<lparr>open_timeout := 15000000\<rparr>) 9 all_ok ''example.com'' ex_cached
     = (1, Some [private_copy (private_copy ex_ai4 ex_addr4) (take 16 ex_addr4)], ex_cached)"
  by (simp add: get_dns_cache_def set_dns_cache_def av_dict_get_def av_dict_set_int_def
      ex_cached_def all_ok_def ex_ctx_def ex_ai4_def private_copy_def memcpy_def
      sizeof_sockaddr_def word_sless_alt)

lemma ex_cached_refused:
  "tcp_open (ex_env\<lparr>attempt := ex_all_refused\<rparr>) ex_ctx ex_h ex_uri (ex_globals ex_cached)
     = Inr (Failed (- 61), ex_ctx\<lparr>open_timeout := 15000000\<rparr>, ex_h,
            ex_globals (ex_cached(''example.com'' \<mapsto> None)),
            [Socket 2 1 6, WillOpen,
             Connect 3 (private_copy (private_copy ex_ai4 ex_addr4) (take 16 ex_addr4)) 15000
               False,
             DidOpen (- 61) 3, Closesocket 3])"
proof -
  have uri: "uri_proto ex_uri = ''tcp''" "0 < uri_port ex_uri" "uri_port ex_uri < 65536"
    by (simp_all add: ex_uri_def)
  have init: "tcp_open_init (ex_env\<lparr>attempt := ex_all_refused\<rparr>) ex_ctx (ex_globals ex_cached)
      = (ex_ctx\<lparr>open_timeout := 15000000\<rparr>, ex_globals ex_cached)"
    by (simp add: tcp_open_init_def ex_ctx_def ex_globals_def Let_def)
  have tags: "tcp_open_tags ex_uri (ex_ctx\<lparr>open_timeout := 15000000\<rparr>)
      = ex_ctx\<lparr>open_timeout := 15000000\<rparr>"
    by (rule ex_setup)
  have cache: "dns_cache (ex_ctx\<lparr>open_timeout := 15000000\<rparr>) \<noteq> 0"
    by (simp add: ex_ctx_def)
  have hit: "get_dns_cache (ex_ctx\<lparr>open_timeout := 15000000\<rparr>)
      (get_time (ex_env\<lparr>attempt := ex_all_refused\<rparr>))
      (get_alloc (ex_env\<lparr>attempt := ex_all_refused\<rparr>)) ''example.com'' ex_cached
     = (1, Some [private_copy (private_copy ex_ai4 ex_addr4) (take 16 ex_addr4)], ex_cached)"
    using ex_cached_hit by (simp add: ex_env_def)
  have res: "tcp_open_resolve (ex_env\<lparr>attempt := ex_all_refused\<rparr>)
       (ex_ctx\<lparr>open_timeout := 15000000\<rparr>)
       (uri_hostname ex_uri) (uri_port ex_uri) (dns_dictionary (ex_globals ex_cached))
     = Some (True, 0, Some [private_copy (private_copy ex_ai4 ex_addr4) (take 16 ex_addr4)],
             [], ex_cached)"
    using resolve_of_hit [OF cache hit, of 80] by (simp add: ex_uri_def ex_globals_def)
  have live: "fail1_invalidate ''example.com'' ex_cached = ex_cached(''example.com'' \<mapsto> None)"
    by (simp add: fail1_invalidate_def av_dict_get_def av_dict_set_int_def ex_cached_def
        set_dns_cache_def all_ok_def ex_ai4_def word_sless_alt)
  have loop: "tcp_open_restart (ex_env\<lparr>attempt := ex_all_refused\<rparr>)
        (ex_ctx\<lparr>open_timeout := 15000000\<rparr>) 80 True ''example.com'' 0
        [private_copy (private_copy ex_ai4 ex_addr4) (take 16 ex_addr4)] ex_cached
      = (AtFail1 (- 61) 3,
         [Socket 2 1 6, WillOpen,
          Connect 3 (private_copy (private_copy ex_ai4 ex_addr4) (take 16 ex_addr4)) 15000
            False,
          DidOpen (- 61) 3], ex_cached)"
    by (simp add: tcp_open_attempt_def ex_env_def ex_all_refused_def ex_io_refused_def
        ex_ctx_def ex_ai4_def private_copy_def fix_port_def AF_INET6_def sockopts_def
        c_div_def AVERROR_EXIT_def Let_def)
  show ?thesis
    using tcp_open_resolved [OF uri init tags res, of ex_h] loop live
    by (simp add: ex_uri_def ex_ctx_def ex_globals_def)
qed

text \<open>
  The example run: the refused connection makes the call fail with the refusal's code and
  leaves a null value under \<open>example.com\<close>.
\<close>

theorem C5_failure_invalidates_witness:
  "(\<exists>evs. tcp_open (ex_env\<lparr>attempt := ex_all_refused\<rparr>) ex_ctx ex_h ex_uri
             (ex_globals ex_cached)
           = Inr (Failed (- 61), ex_ctx\<lparr>open_timeout := 15000000\<rparr>, ex_h,
                  ex_globals (ex_cached(''example.com'' \<mapsto> None)), evs))
   \<and> get_dns_cache ex_ctx 10 all_ok ''example.com'' (ex_cached(''example.com'' \<mapsto> None))
       = (0, None, ex_cached(''example.com'' \<mapsto> None))"
proof -
  have uri: "uri_proto ex_uri = ''tcp''" "0 < uri_port ex_uri" "uri_port ex_uri < 65536"
    by (simp_all add: ex_uri_def)
  have init: "tcp_open_init (ex_env\<lparr>attempt := ex_all_refused\<rparr>) ex_ctx (ex_globals ex_cached)
      = (ex_ctx\<lparr>open_timeout := 15000000\<rparr>, ex_globals ex_cached)"
    by (simp add: tcp_open_init_def ex_ctx_def ex_globals_def Let_def)
  have tags: "tcp_open_tags ex_uri (ex_ctx\<lparr>open_timeout := 15000000\<rparr>)
      = ex_ctx\<lparr>open_timeout := 15000000\<rparr>"
    by (rule ex_setup)
  have cache: "dns_cache (ex_ctx\<lparr>open_timeout := 15000000\<rparr>) \<noteq> 0"
    by (simp add: ex_ctx_def)
  have hit: "get_dns_cache (ex_ctx\<lparr>open_timeout := 15000000\<rparr>)
      (get_time (ex_env\<lparr>attempt := ex_all_refused\<rparr>))
      (get_alloc (ex_env\<lparr>attempt := ex_all_refused\<rparr>)) (uri_hostname ex_uri)
      (dns_dictionary (ex_globals ex_cached))
     = (1, Some [private_copy (private_copy ex_ai4 ex_addr4) (take 16 ex_addr4)], ex_cached)"
    using ex_cached_hit by (simp add: ex_env_def ex_uri_def ex_globals_def)
  have fails: "\<not> attempt_succeeds (ex_ctx\<lparr>open_timeout := 15000000\<rparr>)
      (attempt (ex_env\<lparr>attempt := ex_all_refused\<rparr>) 0)"
    by (simp add: attempt_succeeds_def ex_all_refused_def ex_io_refused_def ex_ctx_def)
  from C5_failure_invalidates [OF uri init tags cache hit fails, of ex_h ex_ctx 10 all_ok]
  show ?thesis
    by (simp add: attempt_error_def ex_all_refused_def ex_io_refused_def ex_ctx_def
        ex_uri_def ex_globals_def ex_h_def)
qed

text \<open>
  Claim C9. The list that a cache hit returns has exactly one node, with a null canonical
  name (the tail of a one-element list is the null \<open>ai_next\<close>). A \<open>tcp_open\<close> call that
  uses it returns after creating exactly one socket: either it succeeds on that
  candidate, or the one failed attempt ends the call with an error and the socket, where
  one was created, is closed.
\<close>

theorem C9_cached_single_attempt:
  assumes uri: "uri_proto uri = ''tcp''" "0 < uri_port uri" "uri_port uri < 65536"
    and init: "tcp_open_init env s0 g0 = (s2, g1)" "tcp_open_tags uri s2 = s"
    and cache: "dns_cache s \<noteq> 0"
    and hit: "get_dns_cache s (get_time env) (get_alloc env) (uri_hostname uri)
                (dns_dictionary g1) = (r, Some l, d1)"
  shows "length l = 1 \<and> ai_canonname (hd l) = None
       \<and> (\<exists>x s' h' g' evs. tcp_open env s0 h0 uri g0 = Inr (x, s', h', g', evs)
             \<and> (x = Opened
                  \<and> socket_events evs
                      = [Socket (ai_family (hd l)) (ai_socktype (hd l)) (ai_protocol (hd l))]
                \<or> (\<exists>e. x = Failed e)
                  \<and> socket_events evs
                      = Socket (ai_family (hd l)) (ai_socktype (hd l)) (ai_protocol (hd l))
                        # (if 0 \<le> socket_ret (attempt env 0)
                           then [Closesocket (socket_ret (attempt env 0))] else [])))"
proof -
  from tcp_open_cached [OF uri init cache hit, of h0] obtain c x evs1 where
    l: "l = [c]" and name: "ai_canonname c = None"
    and pass: "tcp_open_attempt env s (uri_port uri) True (uri_hostname uri) (attempt env 0) c []
            (dns_dictionary g1) = (x, evs1, dns_dictionary g1)"
    and sock: "socket_events evs1 = [Socket (ai_family c) (ai_socktype c) (ai_protocol c)]"
    and run: "tcp_open env s0 h0 uri g0 =
          (case x of
             Done fd1 \<Rightarrow>
               Inr (Opened, s\<lparr>fd := fd1\<rparr>,
                    (if rw_timeout s \<ge> 0 then h0\<lparr>rw_timeout_h := rw_timeout s\<rparr> else h0)
                      \<lparr>is_streamed := 1\<rparr>,
                    g1, evs1)
           | GotoFail r1 fd1 \<Rightarrow>
               Inr (Failed r1, s,
                    (if rw_timeout s \<ge> 0 then h0\<lparr>rw_timeout_h := rw_timeout s\<rparr> else h0),
                    g1\<lparr>dns_dictionary := (dns_dictionary g1)(uri_hostname uri \<mapsto> None)\<rparr>,
                    evs1 @ (if fd1 \<ge> 0 then [Closesocket fd1] else []))
           | GotoFail1 r1 fd1 \<Rightarrow>
               Inr (Failed r1, s,
                    (if rw_timeout s \<ge> 0 then h0\<lparr>rw_timeout_h := rw_timeout s\<rparr> else h0),
                    g1\<lparr>dns_dictionary := (dns_dictionary g1)(uri_hostname uri \<mapsto> None)\<rparr>,
                    evs1 @ (if fd1 \<ge> 0 then [Closesocket fd1] else [])))"
    by blast
  have "\<exists>x' s' h' g' evs. tcp_open env s0 h0 uri g0 = Inr (x', s', h', g', evs)
             \<and> (x' = Opened
                  \<and> socket_events evs = [Socket (ai_family c) (ai_socktype c) (ai_protocol c)]
                \<or> (\<exists>e. x' = Failed e)
                  \<and> socket_events evs
                      = Socket (ai_family c) (ai_socktype c) (ai_protocol c)
                        # (if 0 \<le> socket_ret (attempt env 0)
                           then [Closesocket (socket_ret (attempt env 0))] else []))"
  proof (cases x)
    case (Done fd1)
    then show ?thesis using run sock by simp
  next
    case (GotoFail r1 fd1)
    with attempt_sockets(3) [OF pass, of r1 fd1] have "fd1 = socket_ret (attempt env 0)"
      by simp
    with GotoFail show ?thesis using run sock by (simp add: socket_events_append)
  next
    case (GotoFail1 r1 fd1)
    with attempt_sockets(3) [OF pass, of r1 fd1] have "fd1 = socket_ret (attempt env 0)"
      by simp
    with GotoFail1 show ?thesis using run sock by (simp add: socket_events_append)
  qed
  with l name show ?thesis by simp
qed

text \<open>The example run through the cache: one socket, one refusal, and the call fails.\<close>

theorem C9_cached_single_attempt_witness:
  "length [private_copy (private_copy ex_ai4 ex_addr4) (take 16 ex_addr4)] = 1
   \<and> ai_canonname (private_copy (private_copy ex_ai4 ex_addr4) (take 16 ex_addr4)) = None
   \<and> tcp_open (ex_env\<lparr>attempt := ex_all_refused\<rparr>) ex_ctx ex_h ex_uri (ex_globals ex_cached)
     = Inr (Failed (- 61), ex_ctx\<lparr>open_timeout := 15000000\<rparr>, ex_h,
            ex_globals (ex_cached(''example.com'' \<mapsto> None)),
            [Socket 2 1 6, WillOpen,
             Connect 3 (private_copy (private_copy ex_ai4 ex_addr4) (take 16 ex_addr4)) 15000
               False,
             DidOpen (- 61) 3, Closesocket 3])"
proof -
  have uri: "uri_proto ex_uri = ''tcp''" "0 < uri_port ex_uri" "uri_port ex_uri < 65536"
    by (simp_all add: ex_uri_def)
  have init: "tcp_open_init (ex_env\<lparr>attempt := ex_all_refused\<rparr>) ex_ctx (ex_globals ex_cached)
      = (ex_ctx\<lparr>open_timeout := 15000000\<rparr>, ex_globals ex_cached)"
    by (simp add: tcp_open_init_def ex_ctx_def ex_globals_def Let_def)
  have tags: "tcp_open_tags ex_uri (ex_ctx\<lparr>open_timeout := 15000000\<rparr>)
      = ex_ctx\<lparr>open_timeout := 15000000\<rparr>"
    by (rule ex_setup)
  have cache: "dns_cache (ex_ctx\<lparr>open_timeout := 15000000\<rparr>) \<noteq> 0"
    by (simp add: ex_ctx_def)
  have hit: "get_dns_cache (ex_ctx\<lparr>open_timeout := 15000000\<rparr>)
      (get_time (ex_env\<lparr>attempt := ex_all_refused\<rparr>))
      (get_alloc (ex_env\<lparr>attempt := ex_all_refused\<rparr>)) (uri_hostname ex_uri)
      (dns_dictionary (ex_globals ex_cached))
     = (1, Some [private_copy (private_copy ex_ai4 ex_addr4) (take 16 ex_addr4)], ex_cached)"
    using ex_cached_hit by (simp add: ex_env_def ex_uri_def ex_globals_def)
  from C9_cached_single_attempt [OF uri init tags cache hit, of ex_h] ex_cached_refused
  show ?thesis by simp
qed

section \<open>Properties of the resolver\<close>

text \<open>The wait loop after the wakeups it has waited through.\<close>

lemma wait_loop_waited:
  "waited start timeout now req pre = Some (now', req') \<Longrightarrow>
     \<exists>evs0. \<forall>ws. wait_loop start timeout now req (pre @ ws)
        = (case wait_loop start timeout now' req' ws of
             None \<Rightarrow> None
           | Some (r, l, evs) \<Rightarrow> Some (r, l, evs0 @ evs))"
proof (induction pre arbitrary: now req)
  case Nil
  then show ?case
    by (intro exI [of _ "[]"]) (simp split: option.splits)
next
  case (Cons w pre)
  from Cons.prems have go: "wait_check start timeout now req = None"
    "cond_ret w = 0 \<or> cond_ret w = ETIMEDOUT" "\<not> interrupted w"
    and rest: "waited start timeout (time_after w) (req_after w) pre = Some (now', req')"
    by (simp_all split: if_splits)
  from Cons.IH [OF rest] obtain evs0 where
    ih: "\<And>ws. wait_loop start timeout (time_after w) (req_after w) (pre @ ws)
        = (case wait_loop start timeout now' req' ws of
             None \<Rightarrow> None
           | Some (r, l, evs) \<Rightarrow> Some (r, l, evs0 @ evs))"
    by blast
  show ?case
    by (intro exI [of _ "CondTimedwait (now + 100000) # CheckInterrupt # evs0"])
      (use go ih in \<open>auto split: option.splits\<close>)
qed

text \<open>The asynchronous path of \<open>ijk_tcp_getaddrinfo_nonblock\<close> once the worker runs.\<close>

lemma ijk_async:
  assumes "0 <s timeout"
    and "tcp_getaddrinfo_request_create (req_alloc env)
           (if hostname = Some [] then None else hostname) servname hints_p = Inr req0"
    and "buffer_ref_ok env" "pthread_create_ret env = 0"
  shows "ijk_tcp_getaddrinfo_nonblock env hostname servname hints_p timeout one_by_one =
    (case wait_loop (start_time env) timeout (start_time env) (first_view env) (wakeups env) of
       None \<Rightarrow> None
     | Some (r, l, evs) \<Rightarrow>
         Some (r, l, [PthreadCreate one_by_one, PthreadDetach, MutexLock] @ evs
                       @ [MutexUnlock, BufferUnref]))"
proof -
  have "\<not> timeout \<le>s 0"
    using assms(1) by (simp add: word_sle_eq word_sless_alt)
  then show ?thesis
    using assms(2-) by (simp add: ijk_tcp_getaddrinfo_nonblock_def Let_def)
qed


text \<open>
  Claim C8. With a timeout of zero or less, \<open>ijk_tcp_getaddrinfo_nonblock\<close> returns what
  the platform's \<open>getaddrinfo\<close> returns for the host name (an empty name passed as null),
  and the call to \<open>getaddrinfo\<close> is all that it does: no request and no thread are created,
  nothing is waited for and the interrupt callback is never asked. Nothing of the
  environment besides \<open>getaddrinfo\<close> enters the result.
\<close>

theorem C8_synchronous:
  assumes "timeout \<le>s 0"
  shows "ijk_tcp_getaddrinfo_nonblock env hostname servname hints_p timeout one_by_one =
    Some (fst (getaddrinfo env (if hostname = Some [] then None else hostname) servname hints_p),
          (if fst (getaddrinfo env (if hostname = Some [] then None else hostname) servname
                     hints_p) = 0
           then Some (snd (getaddrinfo env (if hostname = Some [] then None else hostname)
                             servname hints_p))
           else None),
          [Getaddrinfo (if hostname = Some [] then None else hostname) servname hints_p])"
  using assms
  by (simp add: ijk_tcp_getaddrinfo_nonblock_def Let_def split: prod.splits)

text \<open>Timeouts 0 and -1: the platform's answer, and a trace of one call.\<close>

theorem C8_synchronous_witness:
  "ijk_tcp_getaddrinfo_nonblock ex_resolver (Some ''example.com'') (Some ''80'') None 0 0
     = Some (0, Some [ex_ai4, ex_ai6], [Getaddrinfo (Some ''example.com'') (Some ''80'') None])
   \<and> ijk_tcp_getaddrinfo_nonblock ex_resolver_deadline (Some []) (Some ''80'') None (- 1) 1
     = Some (8, None, [Getaddrinfo None (Some ''80'') None])"
  using C8_synchronous [of 0 ex_resolver "Some ''example.com''" "Some ''80''" None 0]
    C8_synchronous [of "- 1" ex_resolver_deadline "Some []" "Some ''80''" None 1]
  by (simp add: ex_resolver_def ex_gai_def ex_resolver_deadline_def ex_gai_fail_def
      word_sle_eq)

text \<open>
  Claim C6. In an asynchronous resolution whose wait loop has been waiting through the
  wakeups \<open>pre\<close> and waits once more, an interrupt signalled at the next wakeup \<open>w\<close> makes
  the call return \<open>AVERROR_EXIT\<close> without a result, and the wait and the check of that
  wakeup are the last things it does before it unlocks and drops its reference. Nothing
  is assumed about the request at that wakeup (\<open>req_after w\<close>: the worker may be running or
  finished, with or without addresses) nor about later wakeups.
\<close>

theorem C6_interrupt_returns:
  assumes async: "0 <s timeout"
    and created: "tcp_getaddrinfo_request_create (req_alloc env)
           (if hostname = Some [] then None else hostname) servname hints_p = Inr req0"
      "buffer_ref_ok env" "pthread_create_ret env = 0"
    and sched: "wakeups env = pre @ w # ws"
    and waiting: "waited (start_time env) timeout (start_time env) (first_view env) pre
                    = Some (now', req')"
      "wait_check (start_time env) timeout now' req' = None"
    and intr: "interrupted w"
  shows "\<exists>evs0. ijk_tcp_getaddrinfo_nonblock env hostname servname hints_p timeout one_by_one
           = Some (AVERROR_EXIT, None,
                   evs0 @ CondTimedwait (now' + 100000)
                     # (if cond_ret w = 0 \<or> cond_ret w = ETIMEDOUT then [CheckInterrupt] else [])
                     @ [MutexUnlock, BufferUnref])"
proof -
  from wait_loop_waited [OF waiting(1)] obtain evs0 where
    "wait_loop (start_time env) timeout (start_time env) (first_view env) (pre @ w # ws)
        = (case wait_loop (start_time env) timeout now' req' (w # ws) of
             None \<Rightarrow> None
           | Some (r, l, evs) \<Rightarrow> Some (r, l, evs0 @ evs))"
    by blast
  moreover have "wait_loop (start_time env) timeout now' req' (w # ws)
      = Some (AVERROR_EXIT, None, CondTimedwait (now' + 100000)
                # (if cond_ret w = 0 \<or> cond_ret w = ETIMEDOUT then [CheckInterrupt] else []))"
    using waiting(2) intr by auto
  ultimately have "wait_loop (start_time env) timeout (start_time env) (first_view env)
        (wakeups env)
      = Some (AVERROR_EXIT, None, evs0 @ CondTimedwait (now' + 100000)
                # (if cond_ret w = 0 \<or> cond_ret w = ETIMEDOUT then [CheckInterrupt] else []))"
    using sched by simp
  then show ?thesis
    using ijk_async [OF async created, of one_by_one]
    by (intro exI [of _ "[PthreadCreate one_by_one, PthreadDetach, MutexLock] @ evs0"]) simp
qed


text \<open>The request of the examples.\<close>

lemma ex_request_created:
  "tcp_getaddrinfo_request_create all_ok (Some ''example.com'') (Some ''80'') None = Inr ex_req"
  by (simp add: tcp_getaddrinfo_request_create_def all_ok_def ex_req_def Let_def)

text \<open>
  An interrupt at the second wakeup, at which the worker has finished with an address:
  the call returns \<open>AVERROR_EXIT\<close> all the same.
\<close>

theorem C6_interrupt_returns_witness:
  "\<exists>evs0. ijk_tcp_getaddrinfo_nonblock ex_resolver_intr (Some ''example.com'') (Some ''80'')
             None 1000000 0
           = Some (AVERROR_EXIT, None,
                   evs0 @ [CondTimedwait 200000, CheckInterrupt, MutexUnlock, BufferUnref])"
proof -
  have async: "0 <s (1000000 :: int64)"
    by (simp add: word_sless_alt)
  have created: "tcp_getaddrinfo_request_create (req_alloc ex_resolver_intr)
           (if Some ''example.com'' = Some [] then None else Some ''example.com'')
           (Some ''80'') None = Inr ex_req"
      "buffer_ref_ok ex_resolver_intr" "pthread_create_ret ex_resolver_intr = 0"
    using ex_request_created by (simp_all add: ex_resolver_intr_def ex_resolver_def)
  have sched: "wakeups ex_resolver_intr = [ex_quiet_wakeup] @ ex_interrupt_wakeup # []"
    by (simp add: ex_resolver_intr_def)
  have waiting: "waited (start_time ex_resolver_intr) 1000000 (start_time ex_resolver_intr)
                    (first_view ex_resolver_intr) [ex_quiet_wakeup] = Some (100000, ex_req)"
      "wait_check (start_time ex_resolver_intr) 1000000 100000 ex_req = None"
    by (simp_all add: ex_resolver_intr_def ex_resolver_def ex_quiet_wakeup_def wait_check_def
        ex_req_def word_sless_alt)
  have intr: "interrupted ex_interrupt_wakeup"
    by (simp add: ex_interrupt_wakeup_def)
  from C6_interrupt_returns [OF async created sched waiting intr, of 0]
  show ?thesis
    by (simp add: ex_interrupt_wakeup_def)
qed

text \<open>
  Claim C4, as amended. In an asynchronous resolution whose wait loop, after waiting
  through the wakeups \<open>pre\<close>, finds the worker finished or the deadline passed: with a
  non-empty address list the call returns 0 and that list; with an empty list it returns
  the error code that the worker recorded in \<open>last_error\<close> where one is recorded, and
  \<open>AVERROR_EXIT\<close> only where none is.
\<close>

theorem C4_completion_or_deadline:
  assumes async: "0 <s timeout"
    and created: "tcp_getaddrinfo_request_create (req_alloc env)
           (if hostname = Some [] then None else hostname) servname hints_p = Inr req0"
      "buffer_ref_ok env" "pthread_create_ret env = 0"
    and sched: "wakeups env = pre @ ws"
    and waiting: "waited (start_time env) timeout (start_time env) (first_view env) pre
                    = Some (now', req')"
    and seen: "finished req' \<noteq> 0 \<or> start_time env + timeout <s now'"
  shows "(res req' \<noteq> [] \<longrightarrow>
           (\<exists>evs. ijk_tcp_getaddrinfo_nonblock env hostname servname hints_p timeout one_by_one
                     = Some (0, Some (res req'), evs)))
       \<and> (res req' = [] \<and> last_error req' \<noteq> 0 \<longrightarrow>
           (\<exists>evs. ijk_tcp_getaddrinfo_nonblock env hostname servname hints_p timeout one_by_one
                     = Some (last_error req', None, evs)))
       \<and> (res req' = [] \<and> last_error req' = 0 \<longrightarrow>
           (\<exists>evs. ijk_tcp_getaddrinfo_nonblock env hostname servname hints_p timeout one_by_one
                     = Some (AVERROR_EXIT, None, evs)))"
proof -
  from wait_loop_waited [OF waiting] obtain evs0 where
    skip: "wait_loop (start_time env) timeout (start_time env) (first_view env) (pre @ ws)
        = (case wait_loop (start_time env) timeout now' req' ws of
             None \<Rightarrow> None
           | Some (r, l, evs) \<Rightarrow> Some (r, l, evs0 @ evs))"
    by blast
  have check: "wait_check (start_time env) timeout now' req'
      = Some (if res req' \<noteq> [] then (0, Some (res req'))
              else (if last_error req' \<noteq> 0 then last_error req' else AVERROR_EXIT, None))"
    using seen by (auto simp: wait_check_def)
  have "wait_loop (start_time env) timeout now' req' ws
      = Some (if res req' \<noteq> [] then (0, Some (res req'), [])
              else (if last_error req' \<noteq> 0 then last_error req' else AVERROR_EXIT, None, []))"
    using check by (cases ws) auto
  with skip sched have "wait_loop (start_time env) timeout (start_time env) (first_view env)
        (wakeups env)
      = Some (if res req' \<noteq> [] then (0, Some (res req'), evs0)
              else (if last_error req' \<noteq> 0 then last_error req' else AVERROR_EXIT, None, evs0))"
    by auto
  then show ?thesis
    using ijk_async [OF async created, of one_by_one] by auto
qed

text \<open>The three cases: a recorded error at the deadline, a result, and neither.\<close>

theorem C4_completion_or_deadline_witness:
  "(\<exists>evs. ijk_tcp_getaddrinfo_nonblock ex_resolver_deadline (Some ''example.com'') (Some ''80'')
            None 1000000 1
          = Some (8, None, evs))
   \<and> (\<exists>evs. ijk_tcp_getaddrinfo_nonblock
              (ex_resolver\<lparr>first_view := ex_req\<lparr>res := [ex_ai4], finished := 1\<rparr>\<rparr>)
              (Some ''example.com'') (Some ''80'') None 1000000 0
          = Some (0, Some [ex_ai4], evs))
   \<and> (\<exists>evs. ijk_tcp_getaddrinfo_nonblock (ex_resolver\<lparr>first_view := ex_req\<lparr>finished := 1\<rparr>\<rparr>)
              (Some ''example.com'') (Some ''80'') None 1000000 0
          = Some (AVERROR_EXIT, None, evs))"
proof -
  have async: "0 <s (1000000 :: int64)"
    by (simp add: word_sless_alt)
  have created: "tcp_getaddrinfo_request_create (req_alloc (ex_resolver\<lparr>first_view := v\<rparr>))
           (if Some ''example.com'' = Some [] then None else Some ''example.com'')
           (Some ''80'') None = Inr ex_req"
      "buffer_ref_ok (ex_resolver\<lparr>first_view := v\<rparr>)"
      "pthread_create_ret (ex_resolver\<lparr>first_view := v\<rparr>) = 0"
      "wakeups (ex_resolver\<lparr>first_view := v\<rparr>) = [] @ []"
      "waited (start_time (ex_resolver\<lparr>first_view := v\<rparr>)) 1000000
         (start_time (ex_resolver\<lparr>first_view := v\<rparr>))
         (first_view (ex_resolver\<lparr>first_view := v\<rparr>)) [] = Some (0, v)" for v
    using ex_request_created by (simp_all add: ex_resolver_def)
  have created': "tcp_getaddrinfo_request_create (req_alloc ex_resolver_deadline)
           (if Some ''example.com'' = Some [] then None else Some ''example.com'')
           (Some ''80'') None = Inr ex_req"
      "buffer_ref_ok ex_resolver_deadline" "pthread_create_ret ex_resolver_deadline = 0"
      "wakeups ex_resolver_deadline = [ex_late_wakeup] @ []"
    using ex_request_created by (simp_all add: ex_resolver_deadline_def)
  have view: "ex_view_v4_failed = ex_req\<lparr>req_hints := zero_addrinfo\<lparr>ai_family := AF_INET\<rparr>,
      last_error := 8\<rparr>"
    by (simp add: ex_view_v4_failed_def one_by_one_step_def ex_gai_fail_def ex_req_def Let_def)
  have waited': "waited (start_time ex_resolver_deadline) 1000000
      (start_time ex_resolver_deadline) (first_view ex_resolver_deadline) [ex_late_wakeup]
      = Some (1000001, ex_view_v4_failed)"
    by (simp add: ex_resolver_deadline_def ex_late_wakeup_def wait_check_def view ex_req_def
        word_sless_alt)
  have late: "finished ex_view_v4_failed \<noteq> 0
      \<or> start_time ex_resolver_deadline + 1000000 <s 1000001"
    by (simp add: ex_resolver_deadline_def word_sless_alt)
  have fin: "finished (ex_req\<lparr>res := [ex_ai4], finished := 1\<rparr>) \<noteq> 0 \<or> x"
    "finished (ex_req\<lparr>finished := 1\<rparr>) \<noteq> 0 \<or> x" for x
    by simp_all
  from C4_completion_or_deadline [OF async created' waited' late, of 1]
  have one: "\<exists>evs. ijk_tcp_getaddrinfo_nonblock ex_resolver_deadline (Some ''example.com'')
      (Some ''80'') None 1000000 1 = Some (8, None, evs)"
    by (simp add: view ex_req_def)
  from C4_completion_or_deadline [OF async created fin(1), of 0]
  have two: "\<exists>evs. ijk_tcp_getaddrinfo_nonblock
      (ex_resolver\<lparr>first_view := ex_req\<lparr>res := [ex_ai4], finished := 1\<rparr>\<rparr>)
      (Some ''example.com'') (Some ''80'') None 1000000 0 = Some (0, Some [ex_ai4], evs)"
    by simp
  from C4_completion_or_deadline [OF async created fin(2), of 0]
  have three: "\<exists>evs. ijk_tcp_getaddrinfo_nonblock
      (ex_resolver\<lparr>first_view := ex_req\<lparr>finished := 1\<rparr>\<rparr>)
      (Some ''example.com'') (Some ''80'') None 1000000 0 = Some (AVERROR_EXIT, None, evs)"
    by (simp add: ex_req_def)
  from one two three show ?thesis by blast
qed

text \<open>
  Claim C4 as stated fails: in split-by-family mode the IPv4 call has failed with the
  platform's code 8 and the IPv6 call is pending when the deadline passes; the list is
  empty, and the call returns 8, the platform's code, not \<open>AVERROR_EXIT\<close>.
\<close>

theorem C4_counterexample:
  "res ex_view_v4_failed = []
   \<and> start_time ex_resolver_deadline + 1000000 <s time_after ex_late_wakeup
   \<and> ijk_tcp_getaddrinfo_nonblock ex_resolver_deadline (Some ''example.com'') (Some ''80'')
        None 1000000 1
      = Some (8, None, [PthreadCreate 1, PthreadDetach, MutexLock, CondTimedwait 100000,
                        CheckInterrupt, MutexUnlock, BufferUnref])
   \<and> 8 \<noteq> AVERROR_EXIT"
proof -
  have view: "ex_view_v4_failed = ex_req\<lparr>req_hints := zero_addrinfo\<lparr>ai_family := AF_INET\<rparr>,
      last_error := 8\<rparr>"
    by (simp add: ex_view_v4_failed_def one_by_one_step_def ex_gai_fail_def ex_req_def Let_def)
  have async: "\<not> (1000000 :: int64) \<le>s 0"
    by (simp add: word_sle_eq)
  have run: "wait_loop 0 1000000 0 ex_view_v4_failed [ex_late_wakeup]
      = Some (8, None, [CondTimedwait 100000, CheckInterrupt])"
    by (simp add: view ex_req_def ex_late_wakeup_def wait_check_def word_sless_alt
        ETIMEDOUT_def)
  show ?thesis
    using ex_request_created async run
    by (simp add: ijk_tcp_getaddrinfo_nonblock_def ex_resolver_deadline_def Let_def
        ex_late_wakeup_def AVERROR_EXIT_def view ex_req_def word_sless_alt)
qed


text \<open>One entry of \<open>family_option\<close>, by the outcome of its \<open>getaddrinfo\<close> call.\<close>

lemma one_by_one_step_eq:
  assumes "gai (req_hostname req) (req_servname req)
             (Some ((req_hints req)\<lparr>ai_family := family\<rparr>)) = (r, l)"
  shows "one_by_one_step gai family req =
    ((if r \<noteq> 0 then req\<lparr>req_hints := (req_hints req)\<lparr>ai_family := family\<rparr>, last_error := r\<rparr>
      else req\<lparr>req_hints := (req_hints req)\<lparr>ai_family := family\<rparr>, res := res req @ l\<rparr>),
     Getaddrinfo (req_hostname req) (req_servname req)
         (Some ((req_hints req)\<lparr>ai_family := family\<rparr>))
       # (if r \<noteq> 0 then [] else [MutexLock, AppendRes l, MutexUnlock]))"
  using assms by (simp add: one_by_one_step_def Let_def)

text \<open>
  Claim C7. The split-by-family worker calls \<open>getaddrinfo\<close> for \<open>AF_INET\<close> and then for
  \<open>AF_INET6\<close>; each successful call appends its list to the end of \<open>req->res\<close> between a
  lock and an unlock of the request's mutex; a failed call only records its code in
  \<open>last_error\<close> and the loop goes on. Where at least one call succeeds (with the node that
  a successful \<open>getaddrinfo\<close> returns), the combined list is not empty and the waiter that
  finds this request returns 0 with the list, whatever \<open>last_error\<close> holds.
\<close>

theorem C7_one_by_one:
  assumes v4: "gai (req_hostname req) (req_servname req)
                 (Some ((req_hints req)\<lparr>ai_family := AF_INET\<rparr>)) = (r4, l4)"
    and v6: "gai (req_hostname req) (req_servname req)
                 (Some ((req_hints req)\<lparr>ai_family := AF_INET6\<rparr>)) = (r6, l6)"
    and worker: "tcp_getaddrinfo_one_by_one_worker gai req = (req', evs)"
  shows "res req' = res req @ (if r4 = 0 then l4 else []) @ (if r6 = 0 then l6 else [])
       \<and> last_error req' = (if r6 \<noteq> 0 then r6 else if r4 \<noteq> 0 then r4 else last_error req)
       \<and> finished req' = 1
       \<and> evs = Getaddrinfo (req_hostname req) (req_servname req)
                   (Some ((req_hints req)\<lparr>ai_family := AF_INET\<rparr>))
                 # (if r4 = 0 then [MutexLock, AppendRes l4, MutexUnlock] else [])
                 @ Getaddrinfo (req_hostname req) (req_servname req)
                     (Some ((req_hints req)\<lparr>ai_family := AF_INET6\<rparr>))
                 # (if r6 = 0 then [MutexLock, AppendRes l6, MutexUnlock] else [])
                 @ worker_finish
       \<and> (r4 = 0 \<and> l4 \<noteq> [] \<or> r6 = 0 \<and> l6 \<noteq> [] \<longrightarrow>
            res req' \<noteq> []
            \<and> wait_check start timeout now req' = Some (0, Some (res req')))"
proof -
  let ?h4 = "(req_hints req)\<lparr>ai_family := AF_INET\<rparr>"
  let ?req1 = "if r4 \<noteq> 0 then req\<lparr>req_hints := ?h4, last_error := r4\<rparr>
               else req\<lparr>req_hints := ?h4, res := res req @ l4\<rparr>"
  have first: "one_by_one_step gai AF_INET req =
      (?req1, Getaddrinfo (req_hostname req) (req_servname req) (Some ?h4)
         # (if r4 \<noteq> 0 then [] else [MutexLock, AppendRes l4, MutexUnlock]))"
    by (rule one_by_one_step_eq [where gai = gai and req = req, OF v4])
  have hints: "(req_hints ?req1)\<lparr>ai_family := AF_INET6\<rparr> = (req_hints req)\<lparr>ai_family := AF_INET6\<rparr>"
    "req_hostname ?req1 = req_hostname req" "req_servname ?req1 = req_servname req"
    by simp_all
  have v6': "gai (req_hostname ?req1) (req_servname ?req1)
      (Some ((req_hints ?req1)\<lparr>ai_family := AF_INET6\<rparr>)) = (r6, l6)"
    unfolding hints by (rule v6)
  note second = one_by_one_step_eq [where gai = gai and req = ?req1, OF v6', unfolded hints]
  have "tcp_getaddrinfo_one_by_one_worker gai req =
      (fst (one_by_one_step gai AF_INET6 ?req1)\<lparr>finished := 1\<rparr>,
       snd (one_by_one_step gai AF_INET req) @ snd (one_by_one_step gai AF_INET6 ?req1)
         @ worker_finish)"
    by (simp add: tcp_getaddrinfo_one_by_one_worker_def family_option_def first
        split: prod.splits)
  with worker have req': "req' = fst (one_by_one_step gai AF_INET6 ?req1)\<lparr>finished := 1\<rparr>"
    and evs: "evs = snd (one_by_one_step gai AF_INET req)
                @ snd (one_by_one_step gai AF_INET6 ?req1) @ worker_finish"
    by simp_all
  have res: "res req' = res req @ (if r4 = 0 then l4 else []) @ (if r6 = 0 then l6 else [])"
    and err: "last_error req' = (if r6 \<noteq> 0 then r6 else if r4 \<noteq> 0 then r4 else last_error req)"
    and fin: "finished req' = 1"
    unfolding req' second by simp_all
  have trace: "evs = Getaddrinfo (req_hostname req) (req_servname req) (Some ?h4)
                 # (if r4 = 0 then [MutexLock, AppendRes l4, MutexUnlock] else [])
                 @ Getaddrinfo (req_hostname req) (req_servname req)
                     (Some ((req_hints req)\<lparr>ai_family := AF_INET6\<rparr>))
                 # (if r6 = 0 then [MutexLock, AppendRes l6, MutexUnlock] else [])
                 @ worker_finish"
    unfolding evs first second by simp
  have ok: "res req' \<noteq> [] \<and> wait_check start timeout now req' = Some (0, Some (res req'))"
    if "r4 = 0 \<and> l4 \<noteq> [] \<or> r6 = 0 \<and> l6 \<noteq> []"
    using that res fin by (auto simp: wait_check_def)
  from res err fin trace ok show ?thesis by blast
qed

text \<open>IPv4 fails and IPv6 succeeds: the list holds the IPv6 node and the waiter returns 0.\<close>

theorem C7_one_by_one_witness:
  "res (fst (tcp_getaddrinfo_one_by_one_worker ex_gai_v6 ex_req)) = [ex_ai6]
   \<and> last_error (fst (tcp_getaddrinfo_one_by_one_worker ex_gai_v6 ex_req)) = 8
   \<and> finished (fst (tcp_getaddrinfo_one_by_one_worker ex_gai_v6 ex_req)) = 1
   \<and> snd (tcp_getaddrinfo_one_by_one_worker ex_gai_v6 ex_req)
       = [Getaddrinfo (Some ''example.com'') (Some ''80'')
            (Some (zero_addrinfo\<lparr>ai_family := AF_INET\<rparr>)),
          Getaddrinfo (Some ''example.com'') (Some ''80'')
            (Some (zero_addrinfo\<lparr>ai_family := AF_INET6\<rparr>)),
          MutexLock, AppendRes [ex_ai6], MutexUnlock,
          MutexLock, SetFinished, CondSignal, MutexUnlock, BufferUnref]
   \<and> wait_check 0 1000000 0 (fst (tcp_getaddrinfo_one_by_one_worker ex_gai_v6 ex_req))
       = Some (0, Some [ex_ai6])"
proof -
  have v4: "ex_gai_v6 (req_hostname ex_req) (req_servname ex_req)
      (Some ((req_hints ex_req)\<lparr>ai_family := AF_INET\<rparr>)) = (8, [])"
    and v6: "ex_gai_v6 (req_hostname ex_req) (req_servname ex_req)
      (Some ((req_hints ex_req)\<lparr>ai_family := AF_INET6\<rparr>)) = (0, [ex_ai6])"
    by (simp_all add: ex_gai_v6_def AF_INET_def AF_INET6_def)
  have worker: "tcp_getaddrinfo_one_by_one_worker ex_gai_v6 ex_req
      = (fst (tcp_getaddrinfo_one_by_one_worker ex_gai_v6 ex_req),
         snd (tcp_getaddrinfo_one_by_one_worker ex_gai_v6 ex_req))"
    by simp
  from C7_one_by_one [OF v4 v6 worker, of 0 1000000 0]
  show ?thesis
    by (simp add: ex_req_def worker_finish_def)
qed

end
